theory Spec2Isabelle
  imports Main
begin

section \<open>Strings\<close>

text \<open>
  Go strings are byte sequences; they are modelled as \<open>string\<close> (a list of 8-bit
  characters). \<open>strings.ToUpper\<close> and \<open>strings.ToLower\<close> have two paths. A
  string of ASCII bytes only is mapped byte by byte, the two cases of a letter
  differing in the bit of value 32. Any other string goes through
  \<open>strings.Map\<close> with the case mapping of the \<open>unicode\<close> package (under which, for
  one, the long s becomes \<open>S\<close>); that mapping rests on the tables of the package and
  is taken as it comes.
\<close>

record unicode =
  upperMap :: "string \<Rightarrow> string"
  lowerMap :: "string \<Rightarrow> string"

definition isASCII :: "string \<Rightarrow> bool" where
  "isASCII s = list_all (\<lambda>c. (of_char c :: nat) < 128) s"

definition upperChar :: "char \<Rightarrow> char" where
  "upperChar c =
     (case c of Char b0 b1 b2 b3 b4 b5 b6 b7 \<Rightarrow>
        if 97 \<le> (of_char c :: nat) \<and> (of_char c :: nat) \<le> 122
        then Char b0 b1 b2 b3 b4 False b6 b7 else c)"

definition lowerChar :: "char \<Rightarrow> char" where
  "lowerChar c =
     (case c of Char b0 b1 b2 b3 b4 b5 b6 b7 \<Rightarrow>
        if 65 \<le> (of_char c :: nat) \<and> (of_char c :: nat) \<le> 90
        then Char b0 b1 b2 b3 b4 True b6 b7 else c)"

definition ToUpper :: "unicode \<Rightarrow> string \<Rightarrow> string" where
  "ToUpper u s = (if isASCII s then map upperChar s else upperMap u s)"

definition ToLower :: "unicode \<Rightarrow> string \<Rightarrow> string" where
  "ToLower u s = (if isASCII s then map lowerChar s else lowerMap u s)"

definition HasPrefix :: "string \<Rightarrow> string \<Rightarrow> bool" where
  "HasPrefix s p = (take (length p) s = p)"

definition TrimPrefix :: "string \<Rightarrow> string \<Rightarrow> string" where
  "TrimPrefix s p = (if HasPrefix s p then drop (length p) s else s)"

fun Contains :: "string \<Rightarrow> string \<Rightarrow> bool" where
  "Contains [] sub = (sub = [])"
| "Contains (c # cs) sub = (HasPrefix (c # cs) sub \<or> Contains cs sub)"

text \<open>\<open>strings.Split(s, ",")\<close>: the pieces between the separators, at least one piece.\<close>

fun SplitOn :: "char \<Rightarrow> string \<Rightarrow> string list" where
  "SplitOn sep [] = [[]]"
| "SplitOn sep (c # cs) =
     (if c = sep then [] # SplitOn sep cs
      else (case SplitOn sep cs of
              [] \<Rightarrow> [[c]]
            | p # ps \<Rightarrow> (c # p) # ps))"




section \<open>Recognised verbs\<close>

definition validMethods :: "string list" where
  "validMethods = [''GET'', ''POST'', ''PUT'', ''DELETE'', ''PATCH'', ''OPTIONS'', ''HEAD'']"

text \<open>\<open>isValidHTTPMethod\<close>: the loop compares the upper-cased argument with each entry.\<close>

fun isValidHTTPMethod_loop :: "unicode \<Rightarrow> string \<Rightarrow> string list \<Rightarrow> bool" where
  "isValidHTTPMethod_loop u method [] = False"
| "isValidHTTPMethod_loop u method (valid # rest) =
     (if ToUpper u method = valid then True else isValidHTTPMethod_loop u method rest)"

definition isValidHTTPMethod :: "unicode \<Rightarrow> string \<Rightarrow> bool" where
  "isValidHTTPMethod u method = isValidHTTPMethod_loop u method validMethods"

section \<open>The client\<close>

text \<open>
  \<open>ClientConfig\<close> as declared. Go's \<open>int\<close> and \<open>int64\<close> fields are integers here;
  the 64-bit wrap-around of the backoff arithmetic is written out by \<open>int64\<close>.
\<close>

record ClientConfig =
  OtelEnabled :: bool
  TimeoutMs :: int
  MaxRetries :: int
  BackoffBaseMs :: int
  BackoffMaxMs :: int
  BackoffFactor :: int
  DisableBackoff :: bool

text \<open>The \<open>validate\<close> tags of \<open>ClientConfig\<close>, checked by \<open>NewHTTPClient\<close>.\<close>

definition validClientConfig :: "ClientConfig \<Rightarrow> bool" where
  "validClientConfig c =
     (100 \<le> TimeoutMs c \<and> TimeoutMs c \<le> 30000 \<and>
      0 \<le> MaxRetries c \<and> MaxRetries c \<le> 5 \<and>
      50 \<le> BackoffBaseMs c \<and> BackoffBaseMs c \<le> 1000 \<and>
      100 \<le> BackoffMaxMs c \<and> BackoffMaxMs c \<le> 5000 \<and>
      1 \<le> BackoffFactor c \<and> BackoffFactor c \<le> 5)"

definition int64 :: "int \<Rightarrow> int" where
  "int64 x = (x + 2 ^ 63) mod 2 ^ 64 - 2 ^ 63"

datatype call_error =
    InvalidMethod string
  | MarshalFailed string
  | CreateRequestFailed string
  | RequestFailed string
  | ReadBodyFailed string
  | UnmarshalFailed string
  | StatusError int string
  | AllRetriesFailed


text \<open>
  What the call sees of the world. \<open>marshal\<close> is \<open>json.Marshal\<close> of the input,
  \<open>newRequest\<close> the error of \<open>http.NewRequestWithContext\<close> for a verb and an address,
  \<open>doRequest\<close> the outcome of \<open>h.client.Do\<close> at each attempt number,
  \<open>unmarshalOutput\<close> the error of \<open>json.Unmarshal\<close> into the destination and
  \<open>unmarshalErrResp\<close> the decoding of an error body into a \<open>map[string]string\<close>.
  The correlation identifier of each request is not modelled.
\<close>

record response =
  StatusCode :: int
  Body :: string
  ReadErr :: "string option"

datatype do_result = DoError string | DoResponse response

record 'i world =
  marshal :: "'i \<Rightarrow> string + string"
  newRequest :: "string \<Rightarrow> string \<Rightarrow> string option"
  doRequest :: "int \<Rightarrow> do_result"
  unmarshalOutput :: "string \<Rightarrow> string option"
  unmarshalErrResp :: "string \<Rightarrow> (string \<rightharpoonup> string) option"

text \<open>The observable steps of a call: a request handed to the transport, a sleep (in nanoseconds).\<close>

datatype event = Attempt int | Sleep int

definition Millisecond :: int where
  "Millisecond = 1000000"

text \<open>Lines 605 to 609: the delay slept after a retryable status at an attempt.\<close>

definition backoffMs :: "ClientConfig \<Rightarrow> int \<Rightarrow> int" where
  "backoffMs cfg attempt =
     (let backoff = int64 (BackoffBaseMs cfg * int64 (2 ^ nat (attempt - 1)))
      in if backoff > BackoffMaxMs cfg then BackoffMaxMs cfg else backoff)"

definition sleepDuration :: "ClientConfig \<Rightarrow> int \<Rightarrow> int" where
  "sleepDuration cfg attempt = int64 (int64 (backoffMs cfg attempt) * Millisecond)"

text \<open>Lines 584 to 597: the terminal status error built from the response.\<close>

definition statusError :: "'i world \<Rightarrow> response \<Rightarrow> call_error" where
  "statusError w resp =
     (let bodyBytes = Body resp in
      if length bodyBytes > 0 then
        (case unmarshalErrResp w bodyBytes of
           Some errResp \<Rightarrow>
             (case errResp ''error'' of
                Some msg \<Rightarrow>
                  if msg \<noteq> [] then StatusError (StatusCode resp) msg
                  else StatusError (StatusCode resp) ''unknown error''
              | None \<Rightarrow> StatusError (StatusCode resp) ''unknown error'')
         | None \<Rightarrow> StatusError (StatusCode resp) ''unknown error'')
      else StatusError (StatusCode resp) ''unknown error'')"

text \<open>
  The retry loop of \<open>Call\<close>, from attempt \<open>attempt\<close>, with the trace so far. The result
  is the trace and either the error or the body decoded into the destination
  (\<open>None\<close> when no destination was given).
\<close>

function callLoop ::
  "ClientConfig \<Rightarrow> 'i world \<Rightarrow> string \<Rightarrow> string \<Rightarrow> bool \<Rightarrow> int \<Rightarrow> event list
     \<Rightarrow> event list \<times> (call_error + string option)" where
  "callLoop cfg w method url hasOutput attempt tr =
     (if attempt \<le> MaxRetries cfg + 1 then
        (case newRequest w method url of
           Some e \<Rightarrow> (tr, Inl (CreateRequestFailed e))
         | None \<Rightarrow>
             (case doRequest w attempt of
                DoError e \<Rightarrow>
                  if attempt = MaxRetries cfg + 1
                  then (tr @ [Attempt attempt], Inl (RequestFailed e))
                  else callLoop cfg w method url hasOutput (attempt + 1) (tr @ [Attempt attempt])
              | DoResponse resp \<Rightarrow>
                  if StatusCode resp \<ge> 200 \<and> StatusCode resp < 300 then
                    (if hasOutput then
                       (case ReadErr resp of
                          Some e \<Rightarrow> (tr @ [Attempt attempt], Inl (ReadBodyFailed e))
                        | None \<Rightarrow>
                            (case unmarshalOutput w (Body resp) of
                               Some e \<Rightarrow> (tr @ [Attempt attempt], Inl (UnmarshalFailed e))
                             | None \<Rightarrow> (tr @ [Attempt attempt], Inr (Some (Body resp)))))
                     else (tr @ [Attempt attempt], Inr None))
                  else if StatusCode resp < 500 \<or> attempt = MaxRetries cfg + 1 then
                    (tr @ [Attempt attempt], Inl (statusError w resp))
                  else if DisableBackoff cfg then
                    callLoop cfg w method url hasOutput (attempt + 1) (tr @ [Attempt attempt])
                  else
                    callLoop cfg w method url hasOutput (attempt + 1)
                      (tr @ [Attempt attempt, Sleep (sleepDuration cfg attempt)])))
      else (tr, Inl AllRetriesFailed))"
  by pat_completeness auto
termination
  by (relation "measure (\<lambda>(cfg, w, method, url, hasOutput, attempt, tr).
                  nat (MaxRetries cfg + 2 - attempt))") auto

declare callLoop.simps [simp del]

text \<open>\<open>Call\<close>: the verb check, the serialisation of the input, then the loop from attempt 1.\<close>

definition Call ::
  "unicode \<Rightarrow> ClientConfig \<Rightarrow> 'i world \<Rightarrow> string \<Rightarrow> string \<Rightarrow> 'i option \<Rightarrow> bool
     \<Rightarrow> event list \<times> (call_error + string option)" where
  "Call u cfg w method0 url input hasOutput =
     (let method = ToUpper u method0 in
      if \<not> isValidHTTPMethod u method then ([], Inl (InvalidMethod method))
      else
        (case input of
           None \<Rightarrow> callLoop cfg w method url hasOutput 1 []
         | Some i \<Rightarrow>
             (case marshal w i of
                Inl e \<Rightarrow> ([], Inl (MarshalFailed e))
              | Inr bodyData \<Rightarrow> callLoop cfg w method url hasOutput 1 [])))"

section \<open>Type descriptors and documentation nodes\<close>

text \<open>
  A \<open>reflect.Type\<close> as far as the code inspects it: its kind, the element of a pointer
  and the fields of a struct with the \<open>json\<close> and \<open>validate\<close> entries of their tags
  (\<open>field.Tag.Get\<close>, empty when the tag has no such entry).
\<close>

datatype gotype =
    TBool | TInt | TInt8 | TInt16 | TInt32 | TInt64
  | TUint | TUint8 | TUint16 | TUint32 | TUint64 | TUintptr
  | TFloat32 | TFloat64 | TComplex64 | TComplex128
  | TArray gotype | TChan gotype | TFunc | TInterface | TMap gotype gotype
  | TPtr gotype | TSlice gotype | TString | TStruct "sfield list" | TUnsafePointer
and sfield =
    Field (fieldName: string) (fieldType: gotype) (jsonTag: string) (validateTag: string)

text \<open>\<open>t.Kind().String()\<close>.\<close>

fun KindString :: "gotype \<Rightarrow> string" where
  "KindString TBool = ''bool''"
| "KindString TInt = ''int''"
| "KindString TInt8 = ''int8''"
| "KindString TInt16 = ''int16''"
| "KindString TInt32 = ''int32''"
| "KindString TInt64 = ''int64''"
| "KindString TUint = ''uint''"
| "KindString TUint8 = ''uint8''"
| "KindString TUint16 = ''uint16''"
| "KindString TUint32 = ''uint32''"
| "KindString TUint64 = ''uint64''"
| "KindString TUintptr = ''uintptr''"
| "KindString TFloat32 = ''float32''"
| "KindString TFloat64 = ''float64''"
| "KindString TComplex64 = ''complex64''"
| "KindString TComplex128 = ''complex128''"
| "KindString (TArray e) = ''array''"
| "KindString (TChan e) = ''chan''"
| "KindString TFunc = ''func''"
| "KindString TInterface = ''interface''"
| "KindString (TMap k e) = ''map''"
| "KindString (TPtr e) = ''ptr''"
| "KindString (TSlice e) = ''slice''"
| "KindString TString = ''string''"
| "KindString (TStruct fs) = ''struct''"
| "KindString TUnsafePointer = ''unsafe.Pointer''"

text \<open>
  A documentation node: the \<open>map[string]interface{}\<close> values the synthesizer builds.
  A Go map is an association list with distinct keys, read with \<open>map_of\<close> and written
  with \<open>put\<close>; the order of the keys carries no meaning. The type \<open>'f\<close> stands for
  \<open>float64\<close>.
\<close>

datatype 'f json =
    JNull
  | JBool bool
  | JNumber 'f
  | JString string
  | JArray "'f json list"
  | JObject "(string \<times> 'f json) list"

type_synonym 'f obj = "(string \<times> 'f json) list"

fun put :: "string \<Rightarrow> 'v \<Rightarrow> (string \<times> 'v) list \<Rightarrow> (string \<times> 'v) list" where
  "put k v [] = [(k, v)]"
| "put k v ((k', v') # m) = (if k = k' then (k, v) # m else (k', v') # put k v m)"

text \<open>
  The scanning functions of \<open>fmt\<close> behind \<open>parseInt\<close> and \<open>parseFloat\<close>, and the
  conversion \<open>float64(n)\<close> of an \<open>int\<close>, are taken as they come.
\<close>

record 'f scan =
  Sscanf_d :: "string \<Rightarrow> int option"
  Sscanf_f :: "string \<Rightarrow> 'f option"
  float64 :: "int \<Rightarrow> 'f"

definition parseInt :: "'f scan \<Rightarrow> string \<Rightarrow> int option" where
  "parseInt sc s = Sscanf_d sc s"

definition parseFloat :: "'f scan \<Rightarrow> string \<Rightarrow> 'f option" where
  "parseFloat sc s = Sscanf_f sc s"

text \<open>
  The inner loops of \<open>generateSchema\<close>: when the tag contains \<open>pre\<close>, every part of
  the tag that starts with \<open>pre\<close> and whose rest parses sets \<open>key\<close>.
\<close>

definition tagBound ::
  "(string \<Rightarrow> 'f option) \<Rightarrow> string \<Rightarrow> string \<Rightarrow> string \<Rightarrow> 'f obj \<Rightarrow> 'f obj" where
  "tagBound parse pre key tag fieldSchema =
     (if Contains tag pre then
        foldl (\<lambda>fs part.
                 if HasPrefix part pre then
                   (case parse (TrimPrefix part pre) of
                      Some v \<Rightarrow> put key (JNumber v) fs
                    | None \<Rightarrow> fs)
                 else fs)
          fieldSchema (SplitOn CHR '','' tag)
      else fieldSchema)"

definition parseIntAsFloat :: "'f scan \<Rightarrow> string \<Rightarrow> 'f option" where
  "parseIntAsFloat sc s = map_option (float64 sc) (parseInt sc s)"

definition stringSchema :: "'f scan \<Rightarrow> string \<Rightarrow> 'f obj" where
  "stringSchema sc tag =
     (let fs0 = put ''type'' (JString ''string'') [];
          fs1 = tagBound (parseIntAsFloat sc) ''min='' ''minLength'' tag fs0;
          fs2 = tagBound (parseIntAsFloat sc) ''max='' ''maxLength'' tag fs1
      in if Contains tag ''email'' then put ''format'' (JString ''email'') fs2 else fs2)"

definition integerSchema :: "'f scan \<Rightarrow> string \<Rightarrow> 'f obj" where
  "integerSchema sc tag =
     (let fs0 = put ''type'' (JString ''integer'') [];
          fs1 = tagBound (parseIntAsFloat sc) ''gte='' ''minimum'' tag fs0
      in tagBound (parseIntAsFloat sc) ''lte='' ''maximum'' tag fs1)"

definition numberSchema :: "'f scan \<Rightarrow> string \<Rightarrow> 'f obj" where
  "numberSchema sc tag =
     tagBound (parseFloat sc) ''gte='' ''minimum'' tag (put ''type'' (JString ''number'') [])"

definition elemIfPtr :: "gotype \<Rightarrow> gotype" where
  "elemIfPtr t = (case t of TPtr e \<Rightarrow> e | _ \<Rightarrow> t)"

text \<open>
  \<open>generateSchema\<close> and its loop over the fields of a struct, which carries the
  \<open>properties\<close> map and the \<open>required\<close> slice.
\<close>

function generateSchema :: "'f scan \<Rightarrow> gotype \<Rightarrow> 'f obj"
  and fieldLoop :: "'f scan \<Rightarrow> sfield list \<Rightarrow> 'f obj \<Rightarrow> string list \<Rightarrow> 'f obj \<times> string list"
where
  "generateSchema sc t =
     (case elemIfPtr t of
        TStruct flds \<Rightarrow>
          (case fieldLoop sc flds [] [] of
             (properties, required) \<Rightarrow>
               (let schema = [(''type'', JString ''object''), (''properties'', JObject properties)]
                in if length required > 0
                   then put ''required'' (JArray (map JString required)) schema
                   else schema))
      | t' \<Rightarrow> [(''type'', JString (KindString t'))])"
| "fieldLoop sc [] properties required = (properties, required)"
| "fieldLoop sc (field # rest) properties required =
     (if jsonTag field = [] \<or> jsonTag field = ''-'' then fieldLoop sc rest properties required
      else
        (let jsonName = hd (SplitOn CHR '','' (jsonTag field));
             fieldSchema =
               (case fieldType field of
                  TString \<Rightarrow> stringSchema sc (validateTag field)
                | TInt \<Rightarrow> integerSchema sc (validateTag field)
                | TInt32 \<Rightarrow> integerSchema sc (validateTag field)
                | TInt64 \<Rightarrow> integerSchema sc (validateTag field)
                | TFloat32 \<Rightarrow> numberSchema sc (validateTag field)
                | TFloat64 \<Rightarrow> numberSchema sc (validateTag field)
                | TStruct fs \<Rightarrow> generateSchema sc (fieldType field)
                | _ \<Rightarrow> []);
             required' =
               (if Contains (validateTag field) ''required'' then required @ [jsonName]
                else required)
         in fieldLoop sc rest (put jsonName (JObject fieldSchema) properties) required'))"
  by pat_completeness auto
termination
  apply (relation "measure (\<lambda>x. case x of
                      Inl (sc, t) \<Rightarrow> 2 * size t + 1
                    | Inr (sc, flds, properties, required) \<Rightarrow> 2 * size_list size flds)")
     apply (auto simp: elemIfPtr_def split: gotype.splits)
  apply (case_tac field)
  apply simp
  done

declare generateSchema.simps [simp del]

section \<open>Capabilities and introspection\<close>

text \<open>
  Go values as far as dispatch moves them around: a string, a value of another type
  with its data, and a pointer to a value (\<open>reflect.New(t).Interface()\<close> after binding).
\<close>

datatype 'd goval = StringV string | DataV gotype 'd | PtrV "'d goval"

fun typeOf :: "'d goval \<Rightarrow> gotype" where
  "typeOf (StringV s) = TString"
| "typeOf (DataV t d) = t"
| "typeOf (PtrV v) = TPtr (typeOf v)"

text \<open>
  A \<open>reflect.Value\<close> in the \<open>Func\<close> field: the zero Value, a function of one parameter
  of the given type returning a value and an error (\<open>None\<close> for nil), or the function
  of a method as \<open>Type.MethodByName\<close> yields it, which takes the receiver first.
\<close>

datatype 'd funcval =
    ZeroValue
  | FuncOf gotype "'d goval \<Rightarrow> 'd goval \<times> string option"
  | MethodFunc string

datatype 'd called = Panicked string | Returned "'d goval" "string option"

text \<open>
  \<open>Func.Call\<close> with one argument: \<open>reflect\<close> panics on the zero Value, on a wrong
  number of arguments and on an argument whose type is not the parameter's.
\<close>

fun callFunc :: "'d funcval \<Rightarrow> 'd goval \<Rightarrow> 'd called" where
  "callFunc ZeroValue arg = Panicked ''reflect: call of reflect.Value.Call on zero Value''"
| "callFunc (MethodFunc n) arg = Panicked ''reflect: Call with too few input arguments''"
| "callFunc (FuncOf paramType run) arg =
     (if typeOf arg = paramType
      then (case run arg of (out, err) \<Rightarrow> Returned out err)
      else Panicked (''reflect: Call using '' @ KindString (typeOf arg) @ '' as type ''
                     @ KindString paramType))"

text \<open>
  \<open>MethodInfo\<close> as declared. \<open>InputType\<close> and \<open>OutputType\<close> hold a
  \<open>reflect.Type\<close>, \<open>None\<close> when the field is nil; a method called on the nil type
  panics.
\<close>

record 'd MethodInfo =
  Name :: string
  HTTPMethod :: string
  InputType :: "gotype option"
  OutputType :: "gotype option"
  Func :: "'d funcval"

text \<open>
  What \<open>reflect\<close> tells about a method of the service type: its inputs (the receiver
  included) and outputs, each either the \<open>error\<close> interface, \<open>[]MethodInfo\<close> or another
  type, and its function.
\<close>

datatype sigtype = ErrorType | MethodInfoSlice | OtherType gotype

record 'd gomethod =
  ins :: "sigtype list"
  outs :: "sigtype list"
  mfunc :: "'d funcval"

definition NumIn :: "'d gomethod \<Rightarrow> nat" where
  "NumIn meth = length (ins meth)"

definition NumOut :: "'d gomethod \<Rightarrow> nat" where
  "NumOut meth = length (outs meth)"

text \<open>
  A service value: nil, or a value whose type has the methods \<open>MethodByName\<close> finds and
  whose \<open>RegisterMethods\<close>, when called, returns the declared list.
\<close>

datatype 'd service =
    NilService
  | Service "string \<Rightarrow> 'd gomethod option" "'d MethodInfo list"

datatype info_error =
    ServiceNil
  | NoRegisterMethods
  | InvalidRegisterMethodsSignature
  | EmptyNameOrHTTPMethod
  | MethodNotFound string
  | InvalidSignature string
  | NoMethodsDefined

fun infoErrorString :: "info_error \<Rightarrow> string" where
  "infoErrorString ServiceNil = ''service cannot be nil''"
| "infoErrorString NoRegisterMethods = ''no RegisterMethods method found''"
| "infoErrorString InvalidRegisterMethodsSignature = ''invalid RegisterMethods signature''"
| "infoErrorString EmptyNameOrHTTPMethod = ''invalid MethodInfo: Name or HTTPMethod is empty''"
| "infoErrorString (MethodNotFound n) = ''method '' @ n @ '' not found''"
| "infoErrorString (InvalidSignature n) = ''invalid signature for method '' @ n"
| "infoErrorString NoMethodsDefined = ''no methods defined for service''"

text \<open>
  The validation loop of \<open>getServiceInfo\<close> (lines 43 to 58). \<open>method\<close> is the
  per-iteration copy of the element; the assignment to its \<open>Func\<close> field changes the
  copy only.
\<close>

fun validateMethods ::
  "(string \<Rightarrow> 'd gomethod option) \<Rightarrow> 'd MethodInfo list \<Rightarrow> info_error option" where
  "validateMethods methodByName [] = None"
| "validateMethods methodByName (method # rest) =
     (if Name method = [] \<or> HTTPMethod method = [] then Some EmptyNameOrHTTPMethod
      else
        (case methodByName (Name method) of
           None \<Rightarrow> Some (MethodNotFound (Name method))
         | Some meth \<Rightarrow>
             if NumIn meth \<noteq> 2 \<or> NumOut meth \<noteq> 2 \<or> outs meth ! 1 \<noteq> ErrorType
             then Some (InvalidSignature (Name method))
             else (let method' = method\<lparr>Func := mfunc meth\<rparr>
                   in validateMethods methodByName rest)))"

text \<open>
  \<open>getServiceInfo\<close>. The two checks on the result of the reflective call of
  \<open>RegisterMethods\<close> (one result, of type \<open>[]MethodInfo\<close>) cannot fail after the
  signature check and have no branch here.
\<close>

fun getServiceInfo :: "'d service \<Rightarrow> info_error + 'd MethodInfo list" where
  "getServiceInfo NilService = Inl ServiceNil"
| "getServiceInfo (Service methodByName declared) =
     (case methodByName ''RegisterMethods'' of
        None \<Rightarrow> Inl NoRegisterMethods
      | Some registerMethod \<Rightarrow>
          if NumIn registerMethod \<noteq> 1 \<or> NumOut registerMethod \<noteq> 1
             \<or> outs registerMethod ! 0 \<noteq> MethodInfoSlice
          then Inl InvalidRegisterMethodsSignature
          else
            (let methods = declared in
             case validateMethods methodByName methods of
               Some e \<Rightarrow> Inl e
             | None \<Rightarrow>
                 if length methods = 0 then Inl NoMethodsDefined else Inr methods))"

section \<open>The dispatcher\<close>

text \<open>
  A request as the handler reads it, and the collaborators it calls: the binding of a
  JSON body and of the query parameters into a new value of a type, and the structural
  validation of the bound value. Each answers an error message or, for the two bindings,
  the value the pointer refers to afterwards.
\<close>

record request =
  query :: "string \<Rightarrow> string option"
  reqBody :: string

record 'd binding =
  ShouldBindJSON :: "gotype \<Rightarrow> string \<Rightarrow> string + 'd goval"
  ShouldBindQuery :: "gotype \<Rightarrow> (string \<Rightarrow> string option) \<Rightarrow> string + 'd goval"
  validateStruct :: "'d goval \<Rightarrow> string option"

text \<open>\<open>c.Query(key)\<close>: the parameter, or the empty string when it is missing.\<close>

definition Query :: "request \<Rightarrow> string \<Rightarrow> string" where
  "Query req key = (case query req key of Some v \<Rightarrow> v | None \<Rightarrow> [])"

text \<open>
  A response body: the JSON encoding of a value (\<open>c.JSON\<close> of the handler's output),
  the JSON encoding of \<open>gin.H{"error": msg}\<close>, or bytes written as they are
  (\<open>c.Data\<close>). A panic of the handler is an outcome of its own.
\<close>

datatype 'd payload = JSONValue "'d goval" | JSONError string | RawBytes string

datatype 'd outcome = Respond int "'d payload" | Panic string

definition nilDereference :: string where
  "nilDereference = ''invalid memory address or nil pointer dereference''"

definition dquote :: char where
  "dquote = CHR 0x22"

text \<open>Line 456: the bytes of the body of a 500 response.\<close>

definition errorBytes :: "string \<Rightarrow> string" where
  "errorBytes msg = ''{'' @ [dquote] @ ''error'' @ [dquote] @ '':'' @ [dquote] @ msg @ [dquote] @ ''}''"

text \<open>Lines 451 to 461: the call of the bound callable and the response.\<close>

definition invoke :: "'d MethodInfo \<Rightarrow> 'd goval \<Rightarrow> 'd outcome" where
  "invoke m callInput =
     (case callFunc (Func m) callInput of
        Panicked p \<Rightarrow> Panic p
      | Returned out err \<Rightarrow>
          (case err of
             Some e \<Rightarrow> Respond 500 (RawBytes (errorBytes e))
           | None \<Rightarrow> Respond 200 (JSONValue out)))"

text \<open>
  \<open>handleMethod\<close>: the handler bound for a capability. The comparison of the input's
  kind with \<open>reflect.String\<close> is the comparison of the type with \<open>TString\<close>.
\<close>

definition handleMethod :: "'d binding \<Rightarrow> 'd MethodInfo \<Rightarrow> request \<Rightarrow> 'd outcome" where
  "handleMethod b m req =
     (case InputType m of
        None \<Rightarrow> Panic nilDereference
      | Some inputType \<Rightarrow>
          if inputType = TString then
            (if HTTPMethod m = ''GET'' then
               (let inputVal = StringV (Query req ''name'') in invoke m inputVal)
             else
               (case ShouldBindJSON b inputType (reqBody req) of
                  Inl e \<Rightarrow> Respond 400 (JSONError e)
                | Inr v \<Rightarrow> (let inputVal = PtrV v in invoke m inputVal)))
          else
            (case (if HTTPMethod m = ''GET'' then ShouldBindQuery b inputType (query req)
                   else ShouldBindJSON b inputType (reqBody req)) of
               Inl e \<Rightarrow> Respond 400 (JSONError e)
             | Inr v \<Rightarrow>
                 (let inputVal = PtrV v in
                  case validateStruct b inputVal of
                    Some e \<Rightarrow> Respond 400 (JSONError (''validation failed: '' @ e))
                  | None \<Rightarrow> invoke m v)))"

section \<open>Reading an error body\<close>

text \<open>
  The decoding of a body into a \<open>map[string]string\<close>, as the client applies it to an
  error response (line 590): a JSON object whose members are strings, read character
  by character. White space is allowed between the tokens, a control character inside
  a string is refused, and the two-character escapes are decoded; a \<open>\u\<close> escape is
  not modelled and refused.
\<close>

datatype dstate =
    BeforeObject
  | AfterOpen
  | InKey string
  | InKeyEscape string
  | AfterKey string
  | AfterColon string
  | InValue string string
  | InValueEscape string string
  | AfterValue
  | AfterComma
  | AfterClose

definition isSpace :: "char \<Rightarrow> bool" where
  "isSpace c = (c = CHR '' '' \<or> c = CHR 0x09 \<or> c = CHR 0x0A \<or> c = CHR 0x0D)"

definition unescape :: "char \<Rightarrow> char option" where
  "unescape c =
     (if c = dquote then Some dquote
      else if c = CHR 0x5C then Some (CHR 0x5C)
      else if c = CHR ''/'' then Some (CHR ''/'')
      else if c = CHR ''b'' then Some (CHR 0x08)
      else if c = CHR ''f'' then Some (CHR 0x0C)
      else if c = CHR ''n'' then Some (CHR 0x0A)
      else if c = CHR ''r'' then Some (CHR 0x0D)
      else if c = CHR ''t'' then Some (CHR 0x09)
      else None)"

fun dstep ::
  "dstate \<Rightarrow> (string \<times> string) list \<Rightarrow> char
     \<Rightarrow> (dstate \<times> (string \<times> string) list) option" where
  "dstep BeforeObject m c =
     (if isSpace c then Some (BeforeObject, m)
      else if c = CHR ''{'' then Some (AfterOpen, m) else None)"
| "dstep AfterOpen m c =
     (if isSpace c then Some (AfterOpen, m)
      else if c = CHR ''}'' then Some (AfterClose, m)
      else if c = dquote then Some (InKey [], m) else None)"
| "dstep (InKey k) m c =
     (if c = dquote then Some (AfterKey k, m)
      else if c = CHR 0x5C then Some (InKeyEscape k, m)
      else if (of_char c :: nat) < 32 then None
      else Some (InKey (k @ [c]), m))"
| "dstep (InKeyEscape k) m c =
     (case unescape c of Some d \<Rightarrow> Some (InKey (k @ [d]), m) | None \<Rightarrow> None)"
| "dstep (AfterKey k) m c =
     (if isSpace c then Some (AfterKey k, m)
      else if c = CHR '':'' then Some (AfterColon k, m) else None)"
| "dstep (AfterColon k) m c =
     (if isSpace c then Some (AfterColon k, m)
      else if c = dquote then Some (InValue k [], m) else None)"
| "dstep (InValue k v) m c =
     (if c = dquote then Some (AfterValue, put k v m)
      else if c = CHR 0x5C then Some (InValueEscape k v, m)
      else if (of_char c :: nat) < 32 then None
      else Some (InValue k (v @ [c]), m))"
| "dstep (InValueEscape k v) m c =
     (case unescape c of Some d \<Rightarrow> Some (InValue k (v @ [d]), m) | None \<Rightarrow> None)"
| "dstep AfterValue m c =
     (if isSpace c then Some (AfterValue, m)
      else if c = CHR '','' then Some (AfterComma, m)
      else if c = CHR ''}'' then Some (AfterClose, m) else None)"
| "dstep AfterComma m c =
     (if isSpace c then Some (AfterComma, m)
      else if c = dquote then Some (InKey [], m) else None)"
| "dstep AfterClose m c = (if isSpace c then Some (AfterClose, m) else None)"

fun drun :: "dstate \<Rightarrow> (string \<times> string) list \<Rightarrow> string \<Rightarrow> (string \<times> string) list option" where
  "drun st m [] = (if st = AfterClose then Some m else None)"
| "drun st m (c # cs) =
     (case dstep st m c of None \<Rightarrow> None | Some (st', m') \<Rightarrow> drun st' m' cs)"

definition decodeStringMap :: "string \<Rightarrow> (string \<times> string) list option" where
  "decodeStringMap body = drun BeforeObject [] body"

text \<open>
  The message a body carries: it decodes as such an object and has the key \<open>error\<close>.
  The encoder behind \<open>c.JSON\<close> writes \<open>gin.H{"error": msg}\<close> as an object that
  decodes to \<open>msg\<close>; bytes written by \<open>c.Data\<close> are decoded as they are.
\<close>

fun errorMessageOf :: "'d payload \<Rightarrow> string option" where
  "errorMessageOf (JSONError msg) = Some msg"
| "errorMessageOf (RawBytes bytes) =
     (case decodeStringMap bytes of None \<Rightarrow> None | Some m \<Rightarrow> map_of m ''error'')"
| "errorMessageOf (JSONValue v) = None"

section \<open>Registration and the schema document\<close>

record serviceConfig =
  prefix :: string

definition WithPathPrefix :: "string \<Rightarrow> serviceConfig \<Rightarrow> serviceConfig" where
  "WithPathPrefix p s = s\<lparr>prefix := p\<rparr>"

datatype 'a exec = Done 'a | Panics string

text \<open>
  The router is a collaborator: \<open>New\<close> is the engine \<open>gin.New()\<close> returns, and
  \<open>Handle\<close> the binding of a handler to a verb and a path (\<open>engine.Handle\<close>, and
  \<open>engine.GET\<close> for the verb GET), which gives the engine with the binding or panics,
  as the router does on a binding it refuses (a verb and path already bound, a
  conflict with a wildcard). The recovery middleware is not modelled.
\<close>

datatype 'd handler =
    HealthHandler
  | SwaggerJSONHandler
  | SwaggerUIHandler
  | MethodHandler "'d MethodInfo"

record ('d, 'r) router =
  New :: 'r
  Handle :: "string \<Rightarrow> string \<Rightarrow> 'd handler \<Rightarrow> 'r \<Rightarrow> 'r exec"

text \<open>The server: its engine and its schema document.\<close>

record ('r, 'f) Server =
  engine :: 'r
  swagger :: "'f obj"

definition newSwaggerDoc :: "'f obj" where
  "newSwaggerDoc =
     [(''openapi'', JString ''3.0.3''),
      (''info'', JObject [(''title'', JString ''httpc API''), (''version'', JString ''1.0.0'')]),
      (''paths'', JObject [])]"

definition NewServer :: "('d, 'r) router \<Rightarrow> ('r, 'f) Server exec" where
  "NewServer api =
     (case Handle api ''GET'' ''/health'' HealthHandler (New api) of
        Panics p \<Rightarrow> Panics p
      | Done e1 \<Rightarrow>
          (case Handle api ''GET'' ''/api/docs/swagger.json'' SwaggerJSONHandler e1 of
             Panics p \<Rightarrow> Panics p
           | Done e2 \<Rightarrow>
               (case Handle api ''GET'' ''/api/docs/index.html'' SwaggerUIHandler e2 of
                  Panics p \<Rightarrow> Panics p
                | Done e3 \<Rightarrow> Done \<lparr>engine = e3, swagger = newSwaggerDoc\<rparr>)))"

text \<open>The loop of \<open>registerMethods\<close> (lines 365 to 378) over the route bindings.\<close>

fun bindRoutes ::
  "('d, 'r) router \<Rightarrow> unicode \<Rightarrow> string \<Rightarrow> 'd MethodInfo list \<Rightarrow> 'r \<Rightarrow> 'r exec" where
  "bindRoutes api u pre [] e = Done e"
| "bindRoutes api u pre (m # ms) e =
     (let path = pre @ ''/'' @ Name m; verb = ToUpper u (HTTPMethod m) in
      if verb = ''GET'' then
        (case Handle api ''GET'' path (MethodHandler m) e of
           Panics p \<Rightarrow> Panics p
         | Done e' \<Rightarrow> bindRoutes api u pre ms e')
      else if verb = ''POST'' \<or> verb = ''PUT'' \<or> verb = ''DELETE'' \<or> verb = ''PATCH''
              \<or> verb = ''OPTIONS'' \<or> verb = ''HEAD''
      then
        (case Handle api verb path (MethodHandler m) e of
           Panics p \<Rightarrow> Panics p
         | Done e' \<Rightarrow> bindRoutes api u pre ms e')
      else bindRoutes api u pre ms e)"

definition errorResponse :: "string \<Rightarrow> 'f json" where
  "errorResponse description =
     JObject
      [(''description'', JString description),
       (''content'', JObject
         [(''application/json'', JObject
           [(''schema'', JObject
             [(''type'', JString ''object''),
              (''properties'', JObject
                [(''error'', JObject [(''type'', JString ''string'')])])])])])]"

definition nameParameter :: "'f json" where
  "nameParameter =
     JObject
      [(''name'', JString ''name''),
       (''in'', JString ''query''),
       (''required'', JBool False),
       (''schema'', JObject [(''type'', JString ''string'')])]"

text \<open>
  Lines 167 to 236 of \<open>updateSwaggerDoc\<close>: the operation object of a capability.
  \<open>OutputType.Kind()\<close> panics on a nil output type, and so does \<open>generateSchema\<close> on a
  nil input type, at its first call of \<open>Kind\<close>.
\<close>

definition operationOf :: "'f scan \<Rightarrow> 'd MethodInfo \<Rightarrow> 'f obj exec" where
  "operationOf sc method =
     (case OutputType method of
        None \<Rightarrow> Panics nilDereference
      | Some outputType \<Rightarrow>
          (let operation =
             [(''operationId'', JString (Name method)),
              (''responses'', JObject
                [(''200'', JObject
                   [(''description'', JString ''Successful response''),
                    (''content'', JObject
                      [(''application/json'', JObject
                        [(''schema'', JObject
                          [(''type'', JString (KindString outputType))])])])]),
                 (''400'', errorResponse ''Bad request''),
                 (''500'', errorResponse ''Internal server error'')]),
              (''summary'', JString (Name method))]
           in if HTTPMethod method = ''GET''
              then Done (put ''parameters'' (JArray [nameParameter]) operation)
              else
                (case InputType method of
                   None \<Rightarrow> Panics nilDereference
                 | Some inputType \<Rightarrow>
                     (let schema = generateSchema sc inputType in
                      Done (put ''requestBody''
                              (JObject
                                [(''content'', JObject
                                   [(''application/json'', JObject [(''schema'', JObject schema)])]),
                                 (''required'', JBool True)])
                              operation)))))"

definition docPath :: "string \<Rightarrow> string \<Rightarrow> string" where
  "docPath pre name =
     (let path = pre @ ''/'' @ name in
      if \<not> HasPrefix path ''/'' then ''/'' @ path else path)"

text \<open>
  Lines 162 to 165: the path item to extend. The type assertion on an existing item
  panics when the item is not a map.
\<close>

definition pathItemOf :: "'f obj \<Rightarrow> string \<Rightarrow> 'f obj exec" where
  "pathItemOf paths path =
     (case map_of paths path of
        None \<Rightarrow> Done []
      | Some (JObject existing) \<Rightarrow> Done existing
      | Some _ \<Rightarrow> Panics ''interface conversion: not a map'')"

text \<open>The loop of \<open>updateSwaggerDoc\<close> (lines 151 to 240) over the \<open>paths\<close> map.\<close>

fun swaggerLoop ::
  "unicode \<Rightarrow> 'f scan \<Rightarrow> string \<Rightarrow> 'd MethodInfo list \<Rightarrow> 'f obj \<Rightarrow> 'f obj exec" where
  "swaggerLoop u sc pre [] paths = Done paths"
| "swaggerLoop u sc pre (method # rest) paths =
     (if \<not> isValidHTTPMethod u (HTTPMethod method) then swaggerLoop u sc pre rest paths
      else
        (let path = docPath pre (Name method) in
         case pathItemOf paths path of
           Panics p \<Rightarrow> Panics p
         | Done pathItem \<Rightarrow>
             (case operationOf sc method of
                Panics p \<Rightarrow> Panics p
              | Done operation \<Rightarrow>
                  swaggerLoop u sc pre rest
                    (put path
                       (JObject (put (ToLower u (HTTPMethod method)) (JObject operation) pathItem))
                       paths))))"

definition isNil :: "'f json option \<Rightarrow> bool" where
  "isNil v = (v = None \<or> v = Some JNull)"

text \<open>
  \<open>updateSwaggerDoc\<close> for a server that is not nil: the server with its document and
  the error returned.
\<close>

definition updateSwaggerDoc ::
  "unicode \<Rightarrow> 'f scan \<Rightarrow> ('r, 'f) Server \<Rightarrow> 'd service \<Rightarrow> string
     \<Rightarrow> (('r, 'f) Server \<times> info_error option) exec" where
  "updateSwaggerDoc u sc s service pre =
     (let doc =
        (if isNil (map_of (swagger s) ''openapi'') \<or> isNil (map_of (swagger s) ''info'')
         then newSwaggerDoc else swagger s)
      in case getServiceInfo service of
           Inl err \<Rightarrow> Done (s\<lparr>swagger := doc\<rparr>, Some err)
         | Inr info \<Rightarrow>
             (case map_of doc ''paths'' of
                Some (JObject paths) \<Rightarrow>
                  (case swaggerLoop u sc pre info paths of
                     Panics p \<Rightarrow> Panics p
                   | Done paths' \<Rightarrow>
                       Done (s\<lparr>swagger := put ''paths'' (JObject paths') doc\<rparr>, None))
              | _ \<Rightarrow> Panics ''interface conversion: not a map''))"

datatype register_error = FailedToGetServiceInfo info_error

text \<open>\<open>registerMethods\<close>: an error of the schema update is logged, not returned.\<close>

definition registerMethods ::
  "('d, 'r) router \<Rightarrow> unicode \<Rightarrow> 'f scan \<Rightarrow> ('r, 'f) Server \<Rightarrow> 'd MethodInfo list
     \<Rightarrow> serviceConfig \<Rightarrow> 'd service \<Rightarrow> (('r, 'f) Server \<times> register_error option) exec" where
  "registerMethods api u sc s methods cfg svc =
     (case bindRoutes api u (prefix cfg) methods (engine s) of
        Panics p \<Rightarrow> Panics p
      | Done e \<Rightarrow>
          (let s1 = s\<lparr>engine := e\<rparr> in
           if length methods > 0 then
             (case updateSwaggerDoc u sc s1 svc (prefix cfg) of
                Panics p \<Rightarrow> Panics p
              | Done (s2, err) \<Rightarrow> Done (s2, None))
           else Done (s1, None)))"

definition RegisterService ::
  "('d, 'r) router \<Rightarrow> unicode \<Rightarrow> 'f scan \<Rightarrow> ('r, 'f) Server \<Rightarrow> 'd service
     \<Rightarrow> (serviceConfig \<Rightarrow> serviceConfig) list
     \<Rightarrow> (('r, 'f) Server \<times> register_error option) exec" where
  "RegisterService api u sc s svc opts =
     (let cfg = foldl (\<lambda>c opt. opt c) \<lparr>prefix = ''/''\<rparr> opts in
      case getServiceInfo svc of
        Inl err \<Rightarrow> Done (s, Some (FailedToGetServiceInfo err))
      | Inr info \<Rightarrow> registerMethods api u sc s info cfg svc)"

section \<open>Traces and example values\<close>

text \<open>The attempt numbers of a trace, in order.\<close>

fun attemptsOf :: "event list \<Rightarrow> int list" where
  "attemptsOf [] = []"
| "attemptsOf (Attempt n # tr) = n # attemptsOf tr"
| "attemptsOf (Sleep d # tr) = attemptsOf tr"

text \<open>
  A case mapping for the examples, whose strings are ASCII and never reach it; a
  router that keeps the bindings in a list and panics on a verb and path already
  bound; and the server \<open>NewServer\<close> builds on it.
\<close>

definition exUnicode :: unicode where
  "exUnicode = \<lparr>upperMap = (\<lambda>s. s), lowerMap = (\<lambda>s. s)\<rparr>"

definition exRouter :: "(unit, (string \<times> string \<times> unit handler) list) router" where
  "exRouter =
     \<lparr>New = [],
      Handle = (\<lambda>verb path h e.
        if (verb, path) \<in> set (map (\<lambda>r. (fst r, fst (snd r))) e)
        then Panics ''handlers are already registered for path''
        else Done (e @ [(verb, path, h)]))\<rparr>"

definition exServer :: "((string \<times> string \<times> unit handler) list, int) Server" where
  "exServer =
     \<lparr>engine = [(''GET'', ''/health'', HealthHandler),
                (''GET'', ''/api/docs/swagger.json'', SwaggerJSONHandler),
                (''GET'', ''/api/docs/index.html'', SwaggerUIHandler)],
      swagger = newSwaggerDoc\<rparr>"

text \<open>
  A client whose backoff factor is 3, and a server that answers 503 with an empty body
  to every request.
\<close>

definition exCfg :: ClientConfig where
  "exCfg = \<lparr>OtelEnabled = False, TimeoutMs = 1000, MaxRetries = 3, BackoffBaseMs = 100,
     BackoffMaxMs = 1000, BackoffFactor = 3, DisableBackoff = False\<rparr>"

definition exUnavailable :: "unit world" where
  "exUnavailable = \<lparr>marshal = (\<lambda>_. Inr []), newRequest = (\<lambda>_ _. None),
     doRequest = (\<lambda>_. DoResponse \<lparr>StatusCode = 503, Body = [], ReadErr = None\<rparr>),
     unmarshalOutput = (\<lambda>_. None), unmarshalErrResp = (\<lambda>_. None)\<rparr>"

text \<open>
  The methods and declarations of three services: one whose declared method
  \<open>BadMethod\<close> takes no input and returns one value, one that also declares a method the
  type does not have, and one that declares \<open>Greet\<close> and leaves \<open>Func\<close> unset.
\<close>

definition exRegisterMethods :: "unit gomethod" where
  "exRegisterMethods =
     \<lparr>ins = [OtherType TInterface], outs = [MethodInfoSlice], mfunc = MethodFunc ''RegisterMethods''\<rparr>"

definition exStringMethod :: "string \<Rightarrow> unit gomethod" where
  "exStringMethod n =
     \<lparr>ins = [OtherType TInterface, OtherType TString], outs = [OtherType TString, ErrorType],
      mfunc = MethodFunc n\<rparr>"

definition exBadMethod :: "unit gomethod" where
  "exBadMethod = \<lparr>ins = [OtherType TInterface], outs = [OtherType TString], mfunc = MethodFunc ''BadMethod''\<rparr>"

definition exBadDecl :: "unit MethodInfo" where
  "exBadDecl = \<lparr>Name = ''BadMethod'', HTTPMethod = ''GET'', InputType = None,
     OutputType = Some TString, Func = ZeroValue\<rparr>"

definition exMissingDecl :: "unit MethodInfo" where
  "exMissingDecl = \<lparr>Name = ''Missing'', HTTPMethod = ''GET'', InputType = Some TString,
     OutputType = Some TString, Func = ZeroValue\<rparr>"

definition exInvalidSigMethods :: "string \<Rightarrow> unit gomethod option" where
  "exInvalidSigMethods n =
     (if n = ''RegisterMethods'' then Some exRegisterMethods
      else if n = ''BadMethod'' then Some exBadMethod else None)"



text \<open>
  Capabilities with a string input: a greeting declared on \<open>GET\<close>, on \<open>get\<close> and on
  \<open>POST\<close>, and one whose callable returns an error with a double quote in its
  message. A binding that decodes the body \<open>"hi"\<close> to the string \<open>hi\<close>, and one
  that decodes nothing and answers as the JSON binding does on an empty body.
\<close>

definition exHello :: "unit funcval" where
  "exHello =
     FuncOf TString
       (\<lambda>v. case v of StringV name \<Rightarrow> (StringV (''Hello, '' @ name @ ''!''), None)
                      | _ \<Rightarrow> (StringV [], None))"

definition exQuoted :: string where
  "exQuoted = ''a'' @ [dquote] @ ''b''"

definition exFailing :: "unit funcval" where
  "exFailing = FuncOf TString (\<lambda>v. (StringV [], Some exQuoted))"

definition exHelloGet :: "unit MethodInfo" where
  "exHelloGet = \<lparr>Name = ''Hello'', HTTPMethod = ''GET'', InputType = Some TString,
     OutputType = Some TString, Func = exHello\<rparr>"

definition exHelloLower :: "unit MethodInfo" where
  "exHelloLower = \<lparr>Name = ''Hello'', HTTPMethod = ''get'', InputType = Some TString,
     OutputType = Some TString, Func = exHello\<rparr>"

definition exEchoPost :: "unit MethodInfo" where
  "exEchoPost = \<lparr>Name = ''Echo'', HTTPMethod = ''POST'', InputType = Some TString,
     OutputType = Some TString, Func = exHello\<rparr>"

definition exFailingGet :: "unit MethodInfo" where
  "exFailingGet = \<lparr>Name = ''Fail'', HTTPMethod = ''GET'', InputType = Some TString,
     OutputType = Some TString, Func = exFailing\<rparr>"

definition exUser :: gotype where
  "exUser = TStruct [Field ''Name'' TString ''name'' ''required'',
                     Field ''Email'' TString ''email'' ''required,email'']"

definition exFindGet :: "unit MethodInfo" where
  "exFindGet = \<lparr>Name = ''Find'', HTTPMethod = ''GET'', InputType = Some exUser,
     OutputType = Some TString, Func = ZeroValue\<rparr>"

definition exHi :: string where
  "exHi = [dquote] @ ''hi'' @ [dquote]"

definition exStringBinding :: "unit binding" where
  "exStringBinding =
     \<lparr>ShouldBindJSON = (\<lambda>t body. if t = TString \<and> body = exHi then Inr (StringV ''hi'')
                                 else Inl ''invalid character''),
      ShouldBindQuery = (\<lambda>t q. Inl ''invalid''),
      validateStruct = (\<lambda>v. None)\<rparr>"

definition exNoBinding :: "unit binding" where
  "exNoBinding = \<lparr>ShouldBindJSON = (\<lambda>t body. Inl ''EOF''),
     ShouldBindQuery = (\<lambda>t q. Inl ''EOF''), validateStruct = (\<lambda>v. None)\<rparr>"

definition exScan :: "int scan" where
  "exScan = \<lparr>Sscanf_d = (\<lambda>s. None), Sscanf_f = (\<lambda>s. None), float64 = (\<lambda>n. n)\<rparr>"

text \<open>A struct with a boolean field, a string field and a field excluded by its tag.\<close>

definition exFlags :: gotype where
  "exFlags = TStruct [Field ''Active'' TBool ''active'' [], Field ''Label'' TString ''label'' [],
                      Field ''Hidden'' TString ''-'' []]"

text \<open>
  A service that declares a greeting on GET, a method on the verb \<open>INVALID\<close> and a
  method on POST; and a service that declares the greeting and, on the verb
  \<open>INVALID\<close>, a method its type does not have.
\<close>

definition exInvalidDecl :: "unit MethodInfo" where
  "exInvalidDecl = \<lparr>Name = ''InvalidMethod'', HTTPMethod = ''INVALID'', InputType = Some TString,
     OutputType = Some TString, Func = exHello\<rparr>"

definition exMixedMethods :: "string \<Rightarrow> unit gomethod option" where
  "exMixedMethods n =
     (if n = ''RegisterMethods'' then Some exRegisterMethods
      else if n = ''Hello'' \<or> n = ''InvalidMethod'' \<or> n = ''Echo'' then Some (exStringMethod n)
      else None)"

definition exMixedService :: "unit service" where
  "exMixedService = Service exMixedMethods [exHelloGet, exInvalidDecl, exEchoPost]"

definition exGhostDecl :: "unit MethodInfo" where
  "exGhostDecl = \<lparr>Name = ''Ghost'', HTTPMethod = ''INVALID'', InputType = Some TString,
     OutputType = Some TString, Func = exHello\<rparr>"

definition exGhostMethods :: "string \<Rightarrow> unit gomethod option" where
  "exGhostMethods n =
     (if n = ''RegisterMethods'' then Some exRegisterMethods
      else if n = ''Hello'' then Some (exStringMethod n)
      else None)"

definition exGhostService :: "unit service" where
  "exGhostService = Service exGhostMethods [exHelloGet, exGhostDecl]"

section \<open>Reading a registration\<close>

text \<open>
  The names used to state what a registration does. A schema document is well formed
  when it has \<open>openapi\<close> and \<open>info\<close> and its \<open>paths\<close> is a map of maps: the document
  of a new server is, and a registration keeps it so. \<open>optionsPrefix\<close> is the prefix
  the options leave in the configuration, which starts as \<open>/\<close>. \<open>routeOf\<close> is the
  binding made for a capability and \<open>handleAll\<close> the engine after a list of bindings,
  made in order. A capability has its types set when the types its operation is built
  from are not nil. \<open>operationAt\<close> reads the entry of a verb under a path, and
  \<open>documented\<close> is the entry written for a capability.
\<close>

definition pathItemsAreMaps :: "'f obj \<Rightarrow> bool" where
  "pathItemsAreMaps paths =
     list_all (\<lambda>kv. case snd kv of JObject pathItem \<Rightarrow> True | _ \<Rightarrow> False) paths"

definition docWellFormed :: "'f obj \<Rightarrow> bool" where
  "docWellFormed doc =
     (\<not> isNil (map_of doc ''openapi'') \<and> \<not> isNil (map_of doc ''info'')
      \<and> (case map_of doc ''paths'' of
            Some (JObject paths) \<Rightarrow> pathItemsAreMaps paths
          | _ \<Rightarrow> False))"

definition optionsPrefix :: "(serviceConfig \<Rightarrow> serviceConfig) list \<Rightarrow> string" where
  "optionsPrefix opts = prefix (foldl (\<lambda>c opt. opt c) \<lparr>prefix = ''/''\<rparr> opts)"

definition routeOf :: "unicode \<Rightarrow> string \<Rightarrow> 'd MethodInfo \<Rightarrow> string \<times> string \<times> 'd handler" where
  "routeOf u pre m = (ToUpper u (HTTPMethod m), pre @ ''/'' @ Name m, MethodHandler m)"

fun handleAll ::
  "('d, 'r) router \<Rightarrow> (string \<times> string \<times> 'd handler) list \<Rightarrow> 'r \<Rightarrow> 'r exec" where
  "handleAll api [] e = Done e"
| "handleAll api (b # bs) e =
     (case Handle api (fst b) (fst (snd b)) (snd (snd b)) e of
        Panics p \<Rightarrow> Panics p
      | Done e' \<Rightarrow> handleAll api bs e')"

definition typesSet :: "'d MethodInfo \<Rightarrow> bool" where
  "typesSet m = (OutputType m \<noteq> None \<and> (HTTPMethod m = ''GET'' \<or> InputType m \<noteq> None))"

definition operationAt :: "'f obj \<Rightarrow> string \<Rightarrow> string \<Rightarrow> 'f json option" where
  "operationAt paths path verb =
     (case map_of paths path of
        Some (JObject pathItem) \<Rightarrow> map_of pathItem verb
      | _ \<Rightarrow> None)"

definition documented :: "'f scan \<Rightarrow> 'd MethodInfo \<Rightarrow> 'f json option" where
  "documented sc m =
     (case operationOf sc m of Done operation \<Rightarrow> Some (JObject operation) | Panics p \<Rightarrow> None)"

section \<open>Reading the synthesizer's output\<close>

text \<open>
  The names used to state what \<open>generateSchema\<close> builds: a field is kept unless its
  \<open>json\<close> tag is empty or \<open>-\<close>; its name is the part of the tag before the first comma;
  \<open>fieldNode\<close> is the node the switch on the field's kind builds (lines 40 to 97).
  \<open>docType\<close> is the documentation type of a kind, where the switch has a case for it.
\<close>

definition kept :: "sfield \<Rightarrow> bool" where
  "kept f = (jsonTag f \<noteq> [] \<and> jsonTag f \<noteq> ''-'')"

definition jsonName :: "sfield \<Rightarrow> string" where
  "jsonName f = hd (SplitOn CHR '','' (jsonTag f))"

definition fieldNode :: "'f scan \<Rightarrow> sfield \<Rightarrow> 'f obj" where
  "fieldNode sc f =
     (case fieldType f of
        TString \<Rightarrow> stringSchema sc (validateTag f)
      | TInt \<Rightarrow> integerSchema sc (validateTag f)
      | TInt32 \<Rightarrow> integerSchema sc (validateTag f)
      | TInt64 \<Rightarrow> integerSchema sc (validateTag f)
      | TFloat32 \<Rightarrow> numberSchema sc (validateTag f)
      | TFloat64 \<Rightarrow> numberSchema sc (validateTag f)
      | TStruct fs \<Rightarrow> generateSchema sc (fieldType f)
      | _ \<Rightarrow> [])"

fun docType :: "gotype \<Rightarrow> string option" where
  "docType TString = Some ''string''"
| "docType TInt = Some ''integer''"
| "docType TInt32 = Some ''integer''"
| "docType TInt64 = Some ''integer''"
| "docType TFloat32 = Some ''number''"
| "docType TFloat64 = Some ''number''"
| "docType (TStruct fs) = Some ''object''"
| "docType t = None"

text \<open>A character that may stand in a JSON string as it is.\<close>

definition safeChar :: "char \<Rightarrow> bool" where
  "safeChar c = (c \<noteq> dquote \<and> c \<noteq> CHR 0x5C \<and> 32 \<le> (of_char c :: nat))"

section \<open>Properties of the client\<close>

lemma SplitOn_nonempty: "SplitOn sep s \<noteq> []"
  by (induction s) (auto split: list.splits)

lemma isValidHTTPMethod_loop_iff:
  "isValidHTTPMethod_loop u m vs = (ToUpper u m \<in> set vs)"
  by (induction vs) auto

lemma isValidHTTPMethod_iff: "isValidHTTPMethod u m = (ToUpper u m \<in> set validMethods)"
  by (simp add: isValidHTTPMethod_def isValidHTTPMethod_loop_iff)

lemma ToUpper_ASCII: "isASCII s \<Longrightarrow> ToUpper u s = map upperChar s"
  by (simp add: ToUpper_def)

lemma ToLower_ASCII: "isASCII s \<Longrightarrow> ToLower u s = map lowerChar s"
  by (simp add: ToLower_def)

lemma ToUpper_valid: "v \<in> set validMethods \<Longrightarrow> ToUpper u v = v"
  by (auto simp: validMethods_def ToUpper_def isASCII_def upperChar_def)

lemma isValidHTTPMethod_ToUpper:
  "isValidHTTPMethod u m \<Longrightarrow> isValidHTTPMethod u (ToUpper u m)"
  by (simp add: isValidHTTPMethod_iff ToUpper_valid)

lemma upperChar_idem: "upperChar (upperChar c) = upperChar c"
proof (cases c)
  case (Char b0 b1 b2 b3 b4 b5 b6 b7)
  then show ?thesis
    by (cases b0; cases b1; cases b2; cases b3; cases b4; cases b5; cases b6; cases b7;
        simp add: upperChar_def)
qed

lemma upperChar_ASCII:
  assumes "(of_char c :: nat) < 128"
  shows "(of_char (upperChar c) :: nat) < 128"
proof (cases c)
  case (Char b0 b1 b2 b3 b4 b5 b6 b7)
  with assms show ?thesis
    by (cases b0; cases b1; cases b2; cases b3; cases b4; cases b5; cases b6; cases b7;
        simp add: upperChar_def)
qed

lemma isASCII_upper: "isASCII s \<Longrightarrow> isASCII (map upperChar s)"
  by (induction s) (simp_all add: isASCII_def upperChar_ASCII)

lemma ToUpper_idem_ASCII: "isASCII s \<Longrightarrow> ToUpper u (ToUpper u s) = ToUpper u s"
  by (simp add: ToUpper_def isASCII_upper upperChar_idem)

lemma verb_check_ASCII:
  "isASCII method \<Longrightarrow>
   (\<not> isValidHTTPMethod u (ToUpper u method)) = (map upperChar method \<notin> set validMethods)"
  by (simp add: isValidHTTPMethod_iff ToUpper_idem_ASCII) (simp add: ToUpper_def)

lemma attemptsOf_append: "attemptsOf (xs @ ys) = attemptsOf xs @ attemptsOf ys"
  by (induction xs rule: attemptsOf.induct) auto

lemma statusError_code: "\<exists>msg. statusError w resp = StatusError (StatusCode resp) msg"
  by (auto simp: statusError_def Let_def split: option.splits)

lemma int64_id: "- (2 ^ 63) \<le> x \<Longrightarrow> x < 2 ^ 63 \<Longrightarrow> int64 x = x"
  by (simp add: int64_def)


lemma callLoop_always_503:
  assumes srv: "\<forall>n. \<exists>resp. doRequest w n = DoResponse resp \<and> StatusCode resp = 503"
    and req: "newRequest w method url = None"
  shows "k = nat (MaxRetries cfg + 1 - a) \<Longrightarrow> 1 \<le> a \<Longrightarrow> a \<le> MaxRetries cfg + 1 \<Longrightarrow>
         \<exists>tr' msg. callLoop cfg w method url hasOutput a tr = (tr', Inl (StatusError 503 msg))
           \<and> attemptsOf tr' = attemptsOf tr @ [a..MaxRetries cfg + 1]
           \<and> last tr' = Attempt (MaxRetries cfg + 1)"
proof (induction k arbitrary: a tr)
  case 0
  then have a: "a = MaxRetries cfg + 1" by simp
  from srv obtain resp where r: "doRequest w a = DoResponse resp" "StatusCode resp = 503"
    by blast
  obtain msg where m: "statusError w resp = StatusError 503 msg"
    using statusError_code [of w resp] r(2) by auto
  show ?case
    using a r m req by (subst callLoop.simps) (simp add: attemptsOf_append)
next
  case (Suc k)
  then have lt: "a < MaxRetries cfg + 1" and k: "k = nat (MaxRetries cfg + 1 - (a + 1))"
    by auto
  from srv obtain resp where r: "doRequest w a = DoResponse resp" "StatusCode resp = 503"
    by blast
  have up: "[a..MaxRetries cfg + 1] = a # [a + 1..MaxRetries cfg + 1]"
    using lt by (simp add: upto_rec1)
  show ?case
  proof (cases "DisableBackoff cfg")
    case True
    from Suc.IH [OF k, of "tr @ [Attempt a]"] Suc.prems lt
    obtain tr' msg where
      "callLoop cfg w method url hasOutput (a + 1) (tr @ [Attempt a]) = (tr', Inl (StatusError 503 msg))"
      "attemptsOf tr' = attemptsOf (tr @ [Attempt a]) @ [a + 1..MaxRetries cfg + 1]"
      "last tr' = Attempt (MaxRetries cfg + 1)" by auto
    then show ?thesis
      using r req lt True up by (subst callLoop.simps) (simp add: attemptsOf_append)
  next
    case False
    from Suc.IH [OF k, of "tr @ [Attempt a, Sleep (sleepDuration cfg a)]"] Suc.prems lt
    obtain tr' msg where
      "callLoop cfg w method url hasOutput (a + 1) (tr @ [Attempt a, Sleep (sleepDuration cfg a)])
         = (tr', Inl (StatusError 503 msg))"
      "attemptsOf tr' = attemptsOf (tr @ [Attempt a, Sleep (sleepDuration cfg a)]) @ [a + 1..MaxRetries cfg + 1]"
      "last tr' = Attempt (MaxRetries cfg + 1)" by auto
    then show ?thesis
      using r req lt False up by (subst callLoop.simps) (simp add: attemptsOf_append)
  qed
qed

lemma backoffMs_doubles:
  assumes "validClientConfig cfg" "1 \<le> a" "a \<le> 6"
  shows "backoffMs cfg a = min (BackoffBaseMs cfg * 2 ^ nat (a - 1)) (BackoffMaxMs cfg)"
proof -
  have "nat (a - 1) \<le> 5" using assms by simp
  then have p: "(2::int) ^ nat (a - 1) \<le> 2 ^ 5" by (intro power_increasing) simp_all
  have p0: "(0::int) \<le> 2 ^ nat (a - 1)" by simp
  have i1: "int64 (2 ^ nat (a - 1)) = 2 ^ nat (a - 1)"
  proof (rule int64_id)
    show "- (2 ^ 63) \<le> (2::int) ^ nat (a - 1)" by (rule order_trans [OF _ p0]) simp
    show "(2::int) ^ nat (a - 1) < 2 ^ 63" by (rule le_less_trans [OF p]) simp
  qed
  have b: "50 \<le> BackoffBaseMs cfg" "BackoffBaseMs cfg \<le> 1000"
    using assms(1) by (simp_all add: validClientConfig_def)
  have u: "BackoffBaseMs cfg * 2 ^ nat (a - 1) \<le> 1000 * 2 ^ 5"
    using b p p0 by (intro mult_mono) simp_all
  have l: "0 \<le> BackoffBaseMs cfg * 2 ^ nat (a - 1)" using b by simp
  have i2: "int64 (BackoffBaseMs cfg * 2 ^ nat (a - 1)) = BackoffBaseMs cfg * 2 ^ nat (a - 1)"
  proof (rule int64_id)
    show "- (2 ^ 63) \<le> BackoffBaseMs cfg * 2 ^ nat (a - 1)" by (rule order_trans [OF _ l]) simp
    show "BackoffBaseMs cfg * 2 ^ nat (a - 1) < 2 ^ 63" by (rule le_less_trans [OF u]) simp
  qed
  show ?thesis by (simp add: backoffMs_def i1 i2 Let_def min_def)
qed




text \<open>
  C1. The claim: after a retryable status the delay is
  \<open>min(baseDelay * factor^(attempt-1), maxDelay)\<close> with the configured factor. The code
  doubles the delay whatever \<open>BackoffFactor\<close> is: with base 100 ms, maximum 1000 ms
  and factor 3, the delay after the second attempt is 200 ms where the claim says 300 ms.
\<close>

theorem C1_backoff_ignores_factor:
  "validClientConfig exCfg \<and> BackoffFactor exCfg = 3
   \<and> backoffMs exCfg 2 = 200
   \<and> min (BackoffBaseMs exCfg * BackoffFactor exCfg ^ nat (2 - 1)) (BackoffMaxMs exCfg) = 300
   \<and> Call exUnicode exCfg exUnavailable ''GET'' ''http://example.com'' None True =
       ([Attempt 1, Sleep (100 * Millisecond), Attempt 2, Sleep (200 * Millisecond),
         Attempt 3, Sleep (400 * Millisecond), Attempt 4],
        Inl (StatusError 503 ''unknown error''))"
  by (simp add: validClientConfig_def exCfg_def exUnavailable_def backoffMs_def int64_def
      Call_def isValidHTTPMethod_def validMethods_def ToUpper_def isASCII_def upperChar_def
      callLoop.simps sleepDuration_def Millisecond_def statusError_def)


text \<open>
  C3. With \<open>maxRetries = N \<ge> 0\<close>, a valid verb and a request that can be built, a
  call against a server that answers 503 to every attempt makes the attempts
  \<open>1, ..., N+1\<close>, exactly \<open>N+1\<close> of them, and returns the status error with code 503;
  the last event of the call is attempt \<open>N+1\<close>.
\<close>

theorem C3_retry_bound:
  assumes "0 \<le> MaxRetries cfg"
    and "isValidHTTPMethod u method"
    and "newRequest w (ToUpper u method) url = None"
    and "input = None \<or> (\<exists>i bodyData. input = Some i \<and> marshal w i = Inr bodyData)"
    and "\<forall>n. \<exists>resp. doRequest w n = DoResponse resp \<and> StatusCode resp = 503"
  shows "\<exists>tr msg. Call u cfg w method url input hasOutput = (tr, Inl (StatusError 503 msg))
           \<and> attemptsOf tr = [1..MaxRetries cfg + 1]
           \<and> int (length (attemptsOf tr)) = MaxRetries cfg + 1
           \<and> last tr = Attempt (MaxRetries cfg + 1)"
proof -
  have v: "isValidHTTPMethod u (ToUpper u method)"
    using assms(2) by (rule isValidHTTPMethod_ToUpper)
  from callLoop_always_503 [OF assms(5) assms(3), of "nat (MaxRetries cfg + 1 - 1)" cfg 1 hasOutput "[]"]
    assms(1)
  obtain tr msg where l:
    "callLoop cfg w (ToUpper u method) url hasOutput 1 [] = (tr, Inl (StatusError 503 msg))"
    "attemptsOf tr = [1..MaxRetries cfg + 1]" "last tr = Attempt (MaxRetries cfg + 1)"
    by auto
  have "Call u cfg w method url input hasOutput
          = callLoop cfg w (ToUpper u method) url hasOutput 1 []"
    using v assms(4) by (auto simp: Call_def Let_def)
  with l assms(1) show ?thesis by simp
qed

text \<open>C3 at \<open>maxRetries = 3\<close>: four attempts, then the status error 503.\<close>

theorem C3_retry_bound_witness:
  "\<exists>tr msg. Call exUnicode exCfg exUnavailable ''GET'' ''http://example.com'' None True
              = (tr, Inl (StatusError 503 msg))
     \<and> attemptsOf tr = [1, 2, 3, 4] \<and> last tr = Attempt 4"
proof -
  have up: "[1..(4::int)] = [1, 2, 3, 4]" by (simp add: upto_rec1)
  have h1: "0 \<le> MaxRetries exCfg" by (simp add: exCfg_def)
  have h2: "isValidHTTPMethod exUnicode ''GET''"
    by (simp add: isValidHTTPMethod_def validMethods_def ToUpper_def isASCII_def upperChar_def)
  have h3: "newRequest exUnavailable (ToUpper exUnicode ''GET'') ''http://example.com'' = None"
    by (simp add: exUnavailable_def)
  have h4: "(None :: unit option) = None
      \<or> (\<exists>i bodyData. (None :: unit option) = Some i \<and> marshal exUnavailable i = Inr bodyData)"
    by simp
  have h5: "\<forall>n. \<exists>resp. doRequest exUnavailable n = DoResponse resp \<and> StatusCode resp = 503"
    by (simp add: exUnavailable_def)
  have m: "MaxRetries exCfg + 1 = 4" by (simp add: exCfg_def)
  from C3_retry_bound [OF h1 h2 h3 h4 h5, of True] show ?thesis
    unfolding m up by blast
qed




section \<open>Properties of introspection\<close>

lemma validateMethods_append:
  "validateMethods mbn (pre @ rest) =
     (case validateMethods mbn pre of Some e \<Rightarrow> Some e | None \<Rightarrow> validateMethods mbn rest)"
  by (induction pre) (auto simp: Let_def split: option.splits)

lemma validateMethods_bad_entry:
  assumes "m \<in> set declared" "mbn (Name m) = Some meth"
    "NumIn meth \<noteq> 2 \<or> NumOut meth \<noteq> 2 \<or> outs meth ! 1 \<noteq> ErrorType"
  shows "validateMethods mbn declared \<noteq> None"
  using assms(1)
proof (induction declared)
  case Nil
  then show ?case by simp
next
  case (Cons d ds)
  show ?case
  proof (cases "d = m")
    case True
    then show ?thesis using assms(2,3) by (auto simp: Let_def)
  next
    case False
    with Cons show ?thesis by (auto simp: Let_def split: option.splits)
  qed
qed

lemma getServiceInfo_Inl_of_validate:
  "validateMethods mbn declared \<noteq> None \<Longrightarrow> \<exists>e. getServiceInfo (Service mbn declared) = Inl e"
  by (auto simp: Let_def split: option.splits)



text \<open>
  C4 as stated fails: the checks run entry by entry and the first failure decides the
  error. A list whose first entry names a method the type does not have and whose
  second entry names a method of the wrong signature fails with the method-not-found
  error of the first entry.
\<close>

theorem C4_invalid_signature_counterexample:
  "exBadDecl \<in> set [exMissingDecl, exBadDecl]
   \<and> exInvalidSigMethods (Name exBadDecl) = Some exBadMethod
   \<and> NumIn exBadMethod \<noteq> 2
   \<and> getServiceInfo (Service exInvalidSigMethods [exMissingDecl, exBadDecl])
       = Inl (MethodNotFound ''Missing'')
   \<and> MethodNotFound ''Missing'' \<noteq> InvalidSignature ''BadMethod''"
  by (simp add: exBadDecl_def exMissingDecl_def exInvalidSigMethods_def exBadMethod_def
      exRegisterMethods_def NumIn_def NumOut_def)

text \<open>
  C4, amended. When the declared list has an entry whose named method exists and
  deviates from the required signature (not one input besides the receiver, not two
  outputs, or a second output that is not \<open>error\<close>), introspection returns an error and
  no descriptors. The error is the invalid-signature error of that entry when the
  \<open>RegisterMethods\<close> method has the required signature, every earlier entry passes all
  checks and the entry's name and verb are not empty.
\<close>

theorem C4_invalid_signature_fails:
  assumes "m \<in> set declared" "methodByName (Name m) = Some meth"
    "NumIn meth \<noteq> 2 \<or> NumOut meth \<noteq> 2 \<or> outs meth ! 1 \<noteq> ErrorType"
  shows "(\<exists>e. getServiceInfo (Service methodByName declared) = Inl e)
    \<and> (\<forall>pre post registerMethod.
          declared = pre @ m # post
          \<and> methodByName ''RegisterMethods'' = Some registerMethod
          \<and> NumIn registerMethod = 1 \<and> NumOut registerMethod = 1
          \<and> outs registerMethod ! 0 = MethodInfoSlice
          \<and> validateMethods methodByName pre = None
          \<and> Name m \<noteq> [] \<and> HTTPMethod m \<noteq> []
          \<longrightarrow> getServiceInfo (Service methodByName declared) = Inl (InvalidSignature (Name m)))"
proof (intro conjI allI impI)
  show "\<exists>e. getServiceInfo (Service methodByName declared) = Inl e"
    using validateMethods_bad_entry [of m declared methodByName meth, OF assms]
    by (rule getServiceInfo_Inl_of_validate)
next
  fix pre post registerMethod
  assume a: "declared = pre @ m # post
          \<and> methodByName ''RegisterMethods'' = Some registerMethod
          \<and> NumIn registerMethod = 1 \<and> NumOut registerMethod = 1
          \<and> outs registerMethod ! 0 = MethodInfoSlice
          \<and> validateMethods methodByName pre = None
          \<and> Name m \<noteq> [] \<and> HTTPMethod m \<noteq> []"
  then have "validateMethods methodByName declared = Some (InvalidSignature (Name m))"
    using assms(2,3) by (auto simp: validateMethods_append)
  with a show "getServiceInfo (Service methodByName declared) = Inl (InvalidSignature (Name m))"
    by simp
qed

text \<open>C4, amended, at the service of the tests whose only declaration is \<open>BadMethod\<close>.\<close>

theorem C4_invalid_signature_fails_witness:
  "getServiceInfo (Service exInvalidSigMethods [exBadDecl]) = Inl (InvalidSignature ''BadMethod'')"
proof -
  have h1: "exBadDecl \<in> set [exBadDecl]" by simp
  have h2: "exInvalidSigMethods (Name exBadDecl) = Some exBadMethod"
    by (simp add: exBadDecl_def exInvalidSigMethods_def)
  have h3: "NumIn exBadMethod \<noteq> 2 \<or> NumOut exBadMethod \<noteq> 2 \<or> outs exBadMethod ! 1 \<noteq> ErrorType"
    by (simp add: exBadMethod_def NumIn_def)
  have h4: "[exBadDecl] = [] @ exBadDecl # []
          \<and> exInvalidSigMethods ''RegisterMethods'' = Some exRegisterMethods
          \<and> NumIn exRegisterMethods = 1 \<and> NumOut exRegisterMethods = 1
          \<and> outs exRegisterMethods ! 0 = MethodInfoSlice
          \<and> validateMethods exInvalidSigMethods [] = None
          \<and> Name exBadDecl \<noteq> [] \<and> HTTPMethod exBadDecl \<noteq> []"
    by (simp add: exInvalidSigMethods_def exRegisterMethods_def NumIn_def NumOut_def exBadDecl_def)
  from C4_invalid_signature_fails
         [of exBadDecl "[exBadDecl]" exInvalidSigMethods exBadMethod, OF h1 h2 h3] h4
  have "getServiceInfo (Service exInvalidSigMethods [exBadDecl]) = Inl (InvalidSignature (Name exBadDecl))"
    by blast
  then show ?thesis by (simp add: exBadDecl_def)
qed



section \<open>Properties of the dispatcher\<close>

lemma handleMethod_string_post:
  assumes "InputType m = Some TString" "HTTPMethod m \<noteq> ''GET''" "Func m = FuncOf TString run"
    "ShouldBindJSON b TString (reqBody req) = Inr v"
  shows "handleMethod b m req
     = Panic (''reflect: Call using '' @ KindString (TPtr (typeOf v)) @ '' as type '' @ KindString TString)"
  using assms by (simp add: handleMethod_def invoke_def Let_def)

lemma map_of_put: "map_of (put k v m) k' = (if k' = k then Some v else map_of m k')"
  by (induction m) auto

lemma drun_InValue_safe:
  "list_all safeChar msg \<Longrightarrow> drun (InValue k v) m (msg @ rest) = drun (InValue k (v @ msg)) m rest"
  by (induction msg arbitrary: v) (auto simp: safeChar_def)

lemma errorBytes_decodes:
  assumes "list_all safeChar msg"
  shows "decodeStringMap (errorBytes msg) = Some [(''error'', msg)]"
proof -
  have "decodeStringMap (errorBytes msg) = drun (InValue ''error'' []) [] (msg @ [dquote, CHR ''}''])"
    by (simp add: decodeStringMap_def errorBytes_def dquote_def isSpace_def)
  also have "\<dots> = drun (InValue ''error'' msg) [] [dquote, CHR ''}'']"
    using drun_InValue_safe [OF assms] by simp
  also have "\<dots> = Some [(''error'', msg)]"
    by (simp add: dquote_def isSpace_def)
  finally show ?thesis .
qed

lemma handleMethod_string_get:
  assumes "HTTPMethod m = ''GET''" "InputType m = Some TString"
  shows "handleMethod b m req
           = invoke m (StringV (case query req ''name'' of Some v \<Rightarrow> v | None \<Rightarrow> []))"
  using assms by (simp add: handleMethod_def Query_def Let_def)

lemma operationOf_get:
  assumes "HTTPMethod m = ''GET''" "OutputType m = Some outputType"
  shows "\<exists>operation. operationOf sc m = Done operation
           \<and> map_of operation ''parameters''
               = Some (JArray [JObject [(''name'', JString ''name''), (''in'', JString ''query''),
                                        (''required'', JBool False),
                                        (''schema'', JObject [(''type'', JString ''string'')])]])
           \<and> map_of operation ''requestBody'' = None"
  using assms by (simp add: operationOf_def Let_def nameParameter_def)

lemma handleMethod_string_not_get:
  assumes "HTTPMethod m \<noteq> ''GET''" "InputType m = Some TString"
  shows "handleMethod b m (req\<lparr>query := q\<rparr>) = handleMethod b m req"
  using assms by (simp add: handleMethod_def Let_def)

lemma operationOf_not_get:
  assumes "HTTPMethod m \<noteq> ''GET''" "operationOf sc m = Done operation"
  shows "map_of operation ''parameters'' = None \<and> map_of operation ''requestBody'' \<noteq> None"
  using assms by (auto simp: operationOf_def Let_def split: option.splits)

text \<open>
  C2. The claim: every error body is valid JSON with the key \<open>error\<close> holding the
  message, also when the message contains a double quote. The body of a 500 response
  is the message between fixed bytes, unescaped: for the message \<open>a"b\<close> the body is
  \<open>{"error":"a"b"}\<close>, which does not decode. (A message of safe characters does
  decode, by \<open>errorBytes_decodes\<close>.)
\<close>

theorem C2_error_body_not_json:
  "handleMethod exStringBinding exFailingGet \<lparr>query = Map.empty, reqBody = []\<rparr>
     = Respond 500 (RawBytes (errorBytes exQuoted))
   \<and> errorBytes exQuoted = ''{'' @ [dquote] @ ''error'' @ [dquote] @ '':'' @ [dquote] @ ''a''
        @ [dquote] @ ''b'' @ [dquote] @ ''}''
   \<and> decodeStringMap (errorBytes exQuoted) = None
   \<and> errorMessageOf (RawBytes (errorBytes exQuoted) :: unit payload) = None
   \<and> decodeStringMap (errorBytes ''simulated server error'')
       = Some [(''error'', ''simulated server error'')]"
  by (simp add: handleMethod_def exFailingGet_def exFailing_def invoke_def Query_def
      errorBytes_def exQuoted_def decodeStringMap_def dquote_def isSpace_def unescape_def)

text \<open>
  C5. The claim: for a string input on a verb other than GET the body is decoded as a
  JSON string and the callable is invoked with that string. The code hands the
  pointer to the decoded string to the call, and \<open>reflect\<close> panics: the body \<open>"hi"\<close>
  decodes to \<open>hi\<close>, the callable accepts \<open>hi\<close>, and the request panics.
\<close>

theorem C5_string_post_panics:
  "ShouldBindJSON exStringBinding TString exHi = Inr (StringV ''hi'')
   \<and> callFunc (Func exEchoPost) (StringV ''hi'') = Returned (StringV ''Hello, hi!'') None
   \<and> handleMethod exStringBinding exEchoPost \<lparr>query = Map.empty, reqBody = exHi\<rparr>
       = Panic ''reflect: Call using ptr as type string''"
  by (simp add: exStringBinding_def exEchoPost_def exHello_def handleMethod_def invoke_def)

text \<open>
  C10. The claim: a GET capability with a string input is served from the query
  parameter \<open>name\<close>, and every GET operation is documented with that one parameter.
  Registration upper-cases the declared verb, so a capability declared on \<open>get\<close> is
  accepted by the verb check and bound on GET; the handler and the synthesizer compare
  the declared verb with \<open>GET\<close> as it is. For the greeting declared on \<open>get\<close> the
  request with \<open>name=Test\<close> is answered from the (empty) body with 400, where the same
  greeting declared on \<open>GET\<close> answers 200, and the operation entered under the key
  \<open>get\<close> has a request body and no parameter.
\<close>

theorem C10_lower_case_get:
  "isValidHTTPMethod exUnicode (HTTPMethod exHelloLower)
   \<and> bindRoutes exRouter exUnicode ''/v1'' [exHelloLower] (engine exServer)
       = Done (engine exServer @ [(''GET'', ''/v1/Hello'', MethodHandler exHelloLower)])
   \<and> handleMethod exNoBinding exHelloLower \<lparr>query = [''name'' \<mapsto> ''Test''], reqBody = []\<rparr>
       = Respond 400 (JSONError ''EOF'')
   \<and> handleMethod exNoBinding exHelloGet \<lparr>query = [''name'' \<mapsto> ''Test''], reqBody = []\<rparr>
       = Respond 200 (JSONValue (StringV ''Hello, Test!''))
   \<and> (case swaggerLoop exUnicode exScan ''/v1'' [exHelloLower] [] of
         Done paths \<Rightarrow> operationAt paths ''/v1/Hello'' ''get''
       | Panics p \<Rightarrow> None) = documented exScan exHelloLower
   \<and> (case operationOf exScan exHelloLower of
         Done operation \<Rightarrow>
           map_of operation ''parameters'' = None \<and> map_of operation ''requestBody'' \<noteq> None
       | Panics p \<Rightarrow> False)"
proof -
  have hm: "HTTPMethod exHelloLower = ''get''" and nm: "Name exHelloLower = ''Hello''"
    by (simp_all add: exHelloLower_def)
  have up: "ToUpper exUnicode ''get'' = ''GET''"
    by (simp add: ToUpper_def isASCII_def upperChar_def)
  have low: "ToLower exUnicode ''get'' = ''get''"
    by (simp add: ToLower_def isASCII_def lowerChar_def)
  have v: "isValidHTTPMethod exUnicode (HTTPMethod exHelloLower)"
    by (simp add: hm isValidHTTPMethod_def validMethods_def up)
  have r: "bindRoutes exRouter exUnicode ''/v1'' [exHelloLower] (engine exServer)
       = Done (engine exServer @ [(''GET'', ''/v1/Hello'', MethodHandler exHelloLower)])"
    by (simp add: hm nm up Let_def exRouter_def exServer_def)
  have l: "handleMethod exNoBinding exHelloLower \<lparr>query = [''name'' \<mapsto> ''Test''], reqBody = []\<rparr>
       = Respond 400 (JSONError ''EOF'')"
    by (simp add: handleMethod_def exHelloLower_def exNoBinding_def)
  have g: "handleMethod exNoBinding exHelloGet \<lparr>query = [''name'' \<mapsto> ''Test''], reqBody = []\<rparr>
       = Respond 200 (JSONValue (StringV ''Hello, Test!''))"
    by (simp add: handleMethod_def exHelloGet_def exHello_def invoke_def Query_def)
  obtain operation where op: "operationOf exScan exHelloLower = Done operation"
    by (simp add: operationOf_def exHelloLower_def Let_def)
  have d: "(case swaggerLoop exUnicode exScan ''/v1'' [exHelloLower] [] of
         Done paths \<Rightarrow> operationAt paths ''/v1/Hello'' ''get''
       | Panics p \<Rightarrow> None) = documented exScan exHelloLower"
    using v by (simp add: op hm nm low Let_def pathItemOf_def docPath_def HasPrefix_def
        operationAt_def documented_def)
  have o: "(case operationOf exScan exHelloLower of
         Done operation \<Rightarrow>
           map_of operation ''parameters'' = None \<and> map_of operation ''requestBody'' \<noteq> None
       | Panics p \<Rightarrow> False)"
    using operationOf_not_get [OF _ op] by (simp add: op hm)
  from v r l g d o show ?thesis by (intro conjI)
qed

section \<open>Properties of schema synthesis\<close>

lemma fieldLoop_skip: "\<not> kept f \<Longrightarrow> fieldLoop sc (f # rest) p r = fieldLoop sc rest p r"
  by (auto simp: kept_def)

lemma fieldLoop_keep:
  "kept f \<Longrightarrow> fieldLoop sc (f # rest) p r =
     fieldLoop sc rest (put (jsonName f) (JObject (fieldNode sc f)) p)
       (if Contains (validateTag f) ''required'' then r @ [jsonName f] else r)"
  by (simp add: kept_def jsonName_def fieldNode_def Let_def)

lemma find_snoc:
  "find P (xs @ [x]) = (case find P xs of Some y \<Rightarrow> Some y | None \<Rightarrow> if P x then Some x else None)"
  by (induction xs) auto

lemma map_of_fieldLoop:
  "map_of (fst (fieldLoop sc fs p r)) k =
     (case find (\<lambda>f. kept f \<and> jsonName f = k) (rev fs) of
        Some f \<Rightarrow> Some (JObject (fieldNode sc f))
      | None \<Rightarrow> map_of p k)"
proof (induction fs arbitrary: p r)
  case Nil
  show ?case by simp
next
  case (Cons f fs)
  show ?case
  proof (cases "kept f")
    case True
    show ?thesis
      unfolding fieldLoop_keep [OF True] Cons.IH
      using True by (auto simp: find_snoc map_of_put split: option.splits)
  next
    case False
    show ?thesis
      unfolding fieldLoop_skip [OF False] Cons.IH
      using False by (auto simp: find_snoc split: option.splits)
  qed
qed

lemma map_of_foldl_put_other:
  "k \<noteq> key \<Longrightarrow>
   map_of (foldl (\<lambda>fs part. if c part then (case g part of Some v \<Rightarrow> put key (h v) fs | None \<Rightarrow> fs)
                             else fs) fs0 parts) k = map_of fs0 k"
  by (induction parts arbitrary: fs0) (auto simp: map_of_put split: option.splits)

lemma map_of_tagBound_other:
  "k \<noteq> key \<Longrightarrow> map_of (tagBound parse pre key tag fs) k = map_of fs k"
  unfolding tagBound_def by (simp add: map_of_foldl_put_other)

lemma generateSchema_struct_type:
  "elemIfPtr t = TStruct fs \<Longrightarrow> map_of (generateSchema sc t) ''type'' = Some (JString ''object'')"
  by (cases "fieldLoop sc fs [] []") (simp add: generateSchema.simps Let_def map_of_put)

lemma generateSchema_struct_properties:
  "elemIfPtr t = TStruct fs \<Longrightarrow>
   map_of (generateSchema sc t) ''properties'' = Some (JObject (fst (fieldLoop sc fs [] [])))"
  by (cases "fieldLoop sc fs [] []") (simp add: generateSchema.simps Let_def map_of_put)

lemma fieldNode_type: "map_of (fieldNode sc f) ''type'' = map_option JString (docType (fieldType f))"
proof (cases "fieldType f")
  case (TStruct fs)
  then show ?thesis
    using generateSchema_struct_type [of "TStruct fs" fs sc]
    by (simp add: fieldNode_def elemIfPtr_def)
qed (simp_all add: fieldNode_def stringSchema_def integerSchema_def numberSchema_def Let_def
       map_of_put map_of_tagBound_other)

lemma generateSchema_not_struct:
  "(\<forall>fs. elemIfPtr t \<noteq> TStruct fs) \<Longrightarrow>
   generateSchema sc t = [(''type'', JString (KindString (elemIfPtr t)))]"
  by (cases "elemIfPtr t") (simp_all add: generateSchema.simps)

lemma fieldLoop_filter: "fieldLoop sc fs p r = fieldLoop sc (filter kept fs) p r"
proof (induction fs arbitrary: p r)
  case Nil
  show ?case by simp
next
  case (Cons f fs)
  show ?case
  proof (cases "kept f")
    case True
    then show ?thesis
      using Cons.IH by (simp only: filter.simps if_True fieldLoop_keep [OF True])
  next
    case False
    then show ?thesis
      using Cons.IH by (simp only: filter.simps if_False fieldLoop_skip [OF False])
  qed
qed

lemma generateSchema_filter:
  "generateSchema sc (TStruct fs) = generateSchema sc (TStruct (filter kept fs))"
  using fieldLoop_filter [of sc fs "[]" "[]"]
  by (simp add: generateSchema.simps elemIfPtr_def)

lemma fieldNode_other: "docType (fieldType f) = None \<Longrightarrow> fieldNode sc f = []"
  by (cases "fieldType f") (simp_all add: fieldNode_def)

text \<open>
  C8 as stated fails: the switch on a field's kind has no case for booleans, so a
  boolean field gets an empty node without a type; and a type that is not a struct is
  documented by the name of its Go kind (\<open>bool\<close>, \<open>int64\<close>).
\<close>

theorem C8_schema_counterexample:
  "map_of (generateSchema exScan exFlags) ''properties''
     = Some (JObject [(''active'', JObject []),
                      (''label'', JObject [(''type'', JString ''string'')])])
   \<and> generateSchema exScan TBool = [(''type'', JString ''bool'')]
   \<and> generateSchema exScan TInt64 = [(''type'', JString ''int64'')]"
  by (simp add: generateSchema.simps elemIfPtr_def exFlags_def stringSchema_def tagBound_def
      HasPrefix_def Let_def)

text \<open>
  C8, amended. A type that is not a struct (after one pointer is dereferenced) yields
  the node whose type is the name of its Go kind. A struct yields an object node
  whose properties hold, under each name that is not empty, the node of the last
  kept field of that name and nothing when there is none; the fields that are not
  kept (tag empty or \<open>-\<close>) are skipped: the schema is that of the struct without them.
  The node of a field has the type \<open>string\<close> for a string, \<open>integer\<close> for \<open>int\<close>,
  \<open>int32\<close> and \<open>int64\<close>, \<open>number\<close> for \<open>float32\<close> and \<open>float64\<close>, is the schema
  generated for the field's type for a struct, and is the empty node for any other
  kind, booleans included.
\<close>

theorem C8_schema_nodes:
  "((\<forall>fs. elemIfPtr t \<noteq> TStruct fs) \<longrightarrow>
      generateSchema sc t = [(''type'', JString (KindString (elemIfPtr t)))])
   \<and> (\<forall>fs. elemIfPtr t = TStruct fs \<longrightarrow>
         map_of (generateSchema sc t) ''type'' = Some (JString ''object'')
         \<and> (\<exists>props. map_of (generateSchema sc t) ''properties'' = Some (JObject props)
               \<and> (\<forall>k. k \<noteq> [] \<longrightarrow> map_of props k =
                     (case find (\<lambda>f. kept f \<and> jsonName f = k) (rev fs) of
                        Some f \<Rightarrow> Some (JObject (fieldNode sc f))
                      | None \<Rightarrow> None))))
   \<and> (\<forall>fs. generateSchema sc (TStruct fs) = generateSchema sc (TStruct (filter kept fs)))
   \<and> (\<forall>f. map_of (fieldNode sc f) ''type'' = map_option JString (docType (fieldType f)))
   \<and> (\<forall>f. docType (fieldType f) = None \<longrightarrow> fieldNode sc f = [])
   \<and> (\<forall>f fs. fieldType f = TStruct fs \<longrightarrow> fieldNode sc f = generateSchema sc (fieldType f))"
proof (intro conjI allI impI)
  assume "\<forall>fs. elemIfPtr t \<noteq> TStruct fs"
  then show "generateSchema sc t = [(''type'', JString (KindString (elemIfPtr t)))]"
    by (rule generateSchema_not_struct)
next
  fix fs assume "elemIfPtr t = TStruct fs"
  then show "map_of (generateSchema sc t) ''type'' = Some (JString ''object'')"
    by (rule generateSchema_struct_type)
next
  fix fs assume s: "elemIfPtr t = TStruct fs"
  have "\<forall>k. k \<noteq> [] \<longrightarrow> map_of (fst (fieldLoop sc fs [] [])) k =
          (case find (\<lambda>f. kept f \<and> jsonName f = k) (rev fs) of
             Some f \<Rightarrow> Some (JObject (fieldNode sc f))
           | None \<Rightarrow> None)"
    by (simp add: map_of_fieldLoop split: option.splits)
  with generateSchema_struct_properties [OF s, of sc]
  show "\<exists>props. map_of (generateSchema sc t) ''properties'' = Some (JObject props)
               \<and> (\<forall>k. k \<noteq> [] \<longrightarrow> map_of props k =
                     (case find (\<lambda>f. kept f \<and> jsonName f = k) (rev fs) of
                        Some f \<Rightarrow> Some (JObject (fieldNode sc f))
                      | None \<Rightarrow> None))"
    by blast
next
  fix fs show "generateSchema sc (TStruct fs) = generateSchema sc (TStruct (filter kept fs))"
    by (rule generateSchema_filter)
next
  fix f show "map_of (fieldNode sc f) ''type'' = map_option JString (docType (fieldType f))"
    by (rule fieldNode_type)
next
  fix f assume "docType (fieldType f) = None"
  then show "fieldNode sc f = []" by (rule fieldNode_other)
next
  fix f fs assume "fieldType f = TStruct fs"
  then show "fieldNode sc f = generateSchema sc (fieldType f)"
    by (simp add: fieldNode_def)
qed

text \<open>C8, amended, at a pointer to a struct with a boolean field and at a pointer to \<open>bool\<close>.\<close>

theorem C8_schema_nodes_witness:
  "elemIfPtr (TPtr exFlags) = exFlags
   \<and> map_of (generateSchema exScan (TPtr exFlags)) ''type'' = Some (JString ''object'')
   \<and> (\<exists>props. map_of (generateSchema exScan (TPtr exFlags)) ''properties'' = Some (JObject props)
         \<and> map_of props ''label'' = Some (JObject [(''type'', JString ''string'')])
         \<and> map_of props ''active'' = Some (JObject [])
         \<and> map_of props ''-'' = None)
   \<and> fieldNode exScan (Field ''Active'' TBool ''active'' []) = []
   \<and> generateSchema exScan (TPtr TBool) = [(''type'', JString ''bool'')]"
proof -
  let ?fs = "[Field ''Active'' TBool ''active'' [], Field ''Label'' TString ''label'' [],
              Field ''Hidden'' TString ''-'' []]"
  have e: "elemIfPtr (TPtr exFlags) = TStruct ?fs" by (simp add: elemIfPtr_def exFlags_def)
  have b: "\<forall>fs. elemIfPtr (TPtr TBool) \<noteq> TStruct fs" by (simp add: elemIfPtr_def)
  have n1: "fieldNode exScan (Field ''Label'' TString ''label'' []) = [(''type'', JString ''string'')]"
    by (simp add: fieldNode_def stringSchema_def tagBound_def Let_def)
  have d: "docType (fieldType (Field ''Active'' TBool ''active'' [])) = None" by simp
  note th = C8_schema_nodes [of "TPtr exFlags" exScan]
  from th d have n2: "fieldNode exScan (Field ''Active'' TBool ''active'' []) = []" by blast
  from th e obtain props where p:
    "map_of (generateSchema exScan (TPtr exFlags)) ''type'' = Some (JString ''object'')"
    "map_of (generateSchema exScan (TPtr exFlags)) ''properties'' = Some (JObject props)"
    "\<forall>k. k \<noteq> [] \<longrightarrow> map_of props k =
        (case find (\<lambda>f. kept f \<and> jsonName f = k) (rev ?fs) of
           Some f \<Rightarrow> Some (JObject (fieldNode exScan f))
         | None \<Rightarrow> None)"
    by blast
  have l: "map_of props ''label'' = Some (JObject [(''type'', JString ''string'')])"
    using p(3) n1 by (simp add: kept_def jsonName_def)
  have a: "map_of props ''active'' = Some (JObject [])"
    using p(3) n2 by (simp add: kept_def jsonName_def)
  have h: "map_of props ''-'' = None"
    using p(3) by (simp add: kept_def jsonName_def)
  have t: "generateSchema exScan (TPtr TBool) = [(''type'', JString ''bool'')]"
    using C8_schema_nodes [of "TPtr TBool" exScan] b by (simp add: elemIfPtr_def)
  show ?thesis using e p(1,2) l a h n2 t by (auto simp: exFlags_def)
qed

section \<open>Properties of registration\<close>

lemma NewServer_example: "NewServer exRouter = Done exServer"
  by (simp add: NewServer_def exRouter_def exServer_def)

lemma bindRoutes_handleAll:
  "bindRoutes api u pre ms e
     = handleAll api (map (routeOf u pre) (filter (\<lambda>m. isValidHTTPMethod u (HTTPMethod m)) ms)) e"
proof (induction ms arbitrary: e)
  case Nil
  show ?case by simp
next
  case (Cons m ms)
  show ?case
    by (auto simp: Cons.IH Let_def routeOf_def isValidHTTPMethod_iff validMethods_def
        split: exec.splits)
qed

lemma operationOf_typesSet: "typesSet m \<Longrightarrow> \<exists>operation. operationOf sc m = Done operation"
  by (auto simp: typesSet_def operationOf_def Let_def)

lemma pathItemsAreMaps_put:
  "pathItemsAreMaps paths \<Longrightarrow> pathItemsAreMaps (put k (JObject item) paths)"
  unfolding pathItemsAreMaps_def by (induction paths) auto

lemma pathItemsAreMaps_lookup:
  "pathItemsAreMaps paths \<Longrightarrow> map_of paths k = Some v \<Longrightarrow> \<exists>item. v = JObject item"
  unfolding pathItemsAreMaps_def
  by (induction paths) (auto split: if_splits json.splits)

lemma pathItemOf_Done:
  assumes "pathItemsAreMaps paths"
  shows "\<exists>item. pathItemOf paths path = Done item \<and> (\<forall>v. map_of item v = operationAt paths path v)"
proof (cases "map_of paths path")
  case None
  then show ?thesis by (simp add: pathItemOf_def operationAt_def)
next
  case (Some x)
  with pathItemsAreMaps_lookup [OF assms Some] obtain item where "x = JObject item" by blast
  with Some show ?thesis by (simp add: pathItemOf_def operationAt_def)
qed

lemma operationAt_put:
  assumes "\<forall>v. map_of item v = operationAt paths path v"
  shows "operationAt (put path (JObject (put key x item)) paths) k v
           = (if k = path \<and> v = key then Some x else operationAt paths k v)"
  using assms by (simp add: operationAt_def map_of_put)

lemma swaggerLoop_entries:
  assumes "pathItemsAreMaps paths"
    and "list_all typesSet (filter (\<lambda>m. isValidHTTPMethod u (HTTPMethod m)) ms)"
  shows "\<exists>paths'. swaggerLoop u sc pre ms paths = Done paths' \<and> pathItemsAreMaps paths'
     \<and> (\<forall>k v. operationAt paths' k v =
            (case find (\<lambda>m. isValidHTTPMethod u (HTTPMethod m) \<and> docPath pre (Name m) = k
                             \<and> ToLower u (HTTPMethod m) = v) (rev ms) of
               Some m \<Rightarrow> documented sc m
             | None \<Rightarrow> operationAt paths k v))
     \<and> (\<forall>k. k \<notin> set (map (\<lambda>m. docPath pre (Name m))
                          (filter (\<lambda>m. isValidHTTPMethod u (HTTPMethod m)) ms))
            \<longrightarrow> map_of paths' k = map_of paths k)"
  using assms
proof (induction ms arbitrary: paths)
  case Nil
  then show ?case by simp
next
  case (Cons m ms)
  let ?P = "\<lambda>k v m. isValidHTTPMethod u (HTTPMethod m) \<and> docPath pre (Name m) = k
                      \<and> ToLower u (HTTPMethod m) = v"
  show ?case
  proof (cases "isValidHTTPMethod u (HTTPMethod m)")
    case False
    with Cons.prems have t: "list_all typesSet (filter (\<lambda>m. isValidHTTPMethod u (HTTPMethod m)) ms)"
      by simp
    from Cons.IH [OF Cons.prems(1) t] obtain paths' where p:
      "swaggerLoop u sc pre ms paths = Done paths'" "pathItemsAreMaps paths'"
      "\<forall>k v. operationAt paths' k v =
            (case find (?P k v) (rev ms) of
               Some m \<Rightarrow> documented sc m
             | None \<Rightarrow> operationAt paths k v)"
      "\<forall>k. k \<notin> set (map (\<lambda>m. docPath pre (Name m))
                          (filter (\<lambda>m. isValidHTTPMethod u (HTTPMethod m)) ms))
            \<longrightarrow> map_of paths' k = map_of paths k"
      by blast
    have f: "find (?P k v) (rev (m # ms)) = find (?P k v) (rev ms)" for k v
      using False by (simp add: find_snoc split: option.splits)
    have s: "swaggerLoop u sc pre (m # ms) paths = Done paths'" using False p(1) by simp
    have a: "\<forall>k v. operationAt paths' k v =
            (case find (?P k v) (rev (m # ms)) of
               Some m \<Rightarrow> documented sc m
             | None \<Rightarrow> operationAt paths k v)"
      unfolding f using p(3) .
    have b: "\<forall>k. k \<notin> set (map (\<lambda>m. docPath pre (Name m))
                          (filter (\<lambda>m. isValidHTTPMethod u (HTTPMethod m)) (m # ms)))
            \<longrightarrow> map_of paths' k = map_of paths k"
      using p(4) False by simp
    from s p(2) a b show ?thesis by blast
  next
    case True
    let ?path = "docPath pre (Name m)"
    let ?key = "ToLower u (HTTPMethod m)"
    from True Cons.prems have tm: "typesSet m"
      and t: "list_all typesSet (filter (\<lambda>m. isValidHTTPMethod u (HTTPMethod m)) ms)"
      by simp_all
    from pathItemOf_Done [OF Cons.prems(1), of ?path] obtain item where
      it: "pathItemOf paths ?path = Done item" "\<forall>v. map_of item v = operationAt paths ?path v"
      by blast
    from operationOf_typesSet [OF tm, of sc] obtain operation where
      op: "operationOf sc m = Done operation" by blast
    let ?paths1 = "put ?path (JObject (put ?key (JObject operation) item)) paths"
    have step: "swaggerLoop u sc pre (m # ms) paths = swaggerLoop u sc pre ms ?paths1"
      using True it(1) op by (simp add: Let_def)
    have "pathItemsAreMaps ?paths1" using Cons.prems(1) by (rule pathItemsAreMaps_put)
    from Cons.IH [OF this t] obtain paths' where p:
      "swaggerLoop u sc pre ms ?paths1 = Done paths'" "pathItemsAreMaps paths'"
      "\<forall>k v. operationAt paths' k v =
            (case find (?P k v) (rev ms) of
               Some m \<Rightarrow> documented sc m
             | None \<Rightarrow> operationAt ?paths1 k v)"
      "\<forall>k. k \<notin> set (map (\<lambda>m. docPath pre (Name m))
                          (filter (\<lambda>m. isValidHTTPMethod u (HTTPMethod m)) ms))
            \<longrightarrow> map_of paths' k = map_of ?paths1 k"
      by blast
    have d: "documented sc m = Some (JObject operation)" by (simp add: documented_def op)
    have a: "operationAt paths' k v =
            (case find (?P k v) (rev (m # ms)) of
               Some m \<Rightarrow> documented sc m
             | None \<Rightarrow> operationAt paths k v)" for k v
    proof (cases "find (?P k v) (rev ms)")
      case (Some y)
      then have "find (?P k v) (rev (m # ms)) = Some y" by (simp add: find_snoc)
      with p(3) Some show ?thesis by simp
    next
      case None
      then have f: "find (?P k v) (rev (m # ms)) = (if ?P k v m then Some m else None)"
        by (simp add: find_snoc)
      from p(3) None have "operationAt paths' k v = operationAt ?paths1 k v" by simp
      also have "\<dots> = (if k = ?path \<and> v = ?key then Some (JObject operation)
                        else operationAt paths k v)"
        by (rule operationAt_put [OF it(2)])
      finally show ?thesis unfolding f using True d by auto
    qed
    have b: "\<forall>k. k \<notin> set (map (\<lambda>m. docPath pre (Name m))
                          (filter (\<lambda>m. isValidHTTPMethod u (HTTPMethod m)) (m # ms)))
            \<longrightarrow> map_of paths' k = map_of paths k"
      using p(4) True by (auto simp: map_of_put)
    from step p(1,2) a b show ?thesis by auto
  qed
qed

lemma getServiceInfo_nonempty: "getServiceInfo svc = Inr ms \<Longrightarrow> ms \<noteq> []"
  by (cases svc) (auto simp: Let_def split: option.splits if_splits)


text \<open>
  C6 as stated fails: every declared entry is validated before any verb is looked at.
  A service that declares the greeting on GET and, on the verb \<open>INVALID\<close>, a method its
  type does not have is not registered at all: the call returns the error of
  introspection and the server is left as it was, the greeting without a route.
\<close>

theorem C6_registration_fails_counterexample:
  "\<not> isValidHTTPMethod exUnicode (HTTPMethod exGhostDecl)
   \<and> isValidHTTPMethod exUnicode (HTTPMethod exHelloGet)
   \<and> exGhostService = Service exGhostMethods [exHelloGet, exGhostDecl]
   \<and> exGhostMethods ''Hello'' = Some (exStringMethod ''Hello'')
   \<and> RegisterService exRouter exUnicode exScan exServer exGhostService [WithPathPrefix ''/v1'']
       = Done (exServer, Some (FailedToGetServiceInfo (MethodNotFound ''Ghost'')))"
proof -
  have a: "\<not> isValidHTTPMethod exUnicode (HTTPMethod exGhostDecl)"
    by (simp add: exGhostDecl_def isValidHTTPMethod_def validMethods_def ToUpper_def isASCII_def
        upperChar_def)
  have b: "isValidHTTPMethod exUnicode (HTTPMethod exHelloGet)"
    by (simp add: exHelloGet_def isValidHTTPMethod_def validMethods_def ToUpper_def isASCII_def
        upperChar_def)
  have n: "Name exHelloGet = ''Hello''" "HTTPMethod exHelloGet = ''GET''"
    "Name exGhostDecl = ''Ghost''" "HTTPMethod exGhostDecl = ''INVALID''"
    by (simp_all add: exHelloGet_def exGhostDecl_def)
  have g: "getServiceInfo exGhostService = Inl (MethodNotFound ''Ghost'')"
    by (simp add: exGhostService_def exGhostMethods_def n exRegisterMethods_def
        exStringMethod_def NumIn_def NumOut_def)
  have r: "RegisterService exRouter exUnicode exScan exServer exGhostService [WithPathPrefix ''/v1'']
       = Done (exServer, Some (FailedToGetServiceInfo (MethodNotFound ''Ghost'')))"
    by (simp add: RegisterService_def g)
  have m: "exGhostMethods ''Hello'' = Some (exStringMethod ''Hello'')"
    by (simp add: exGhostMethods_def)
  from a b m r show ?thesis by (simp add: exGhostService_def)
qed


text \<open>
  C6, amended. Take a service that passes introspection, registered on a server whose
  schema document is well formed, where the capabilities whose verb, upper-cased, is
  one of the seven have their types set and the router accepts their bindings, made
  in declared order. Then the registration returns no error and the engine is the
  one those bindings leave: no route is bound for a capability with another verb. The
  schema document stays well formed; the entry of a verb under a path is the operation
  of the last capability with a recognised verb declared for that path and verb, and
  is left as it was when there is none; a path that is the path of no such capability
  is left as it was; and every capability with a recognised verb has an operation.
\<close>

theorem C6_invalid_verbs_skipped:
  assumes info: "getServiceInfo svc = Inr ms"
    and wf: "docWellFormed (swagger s)"
    and types: "list_all typesSet (filter (\<lambda>m. isValidHTTPMethod u (HTTPMethod m)) ms)"
    and router: "handleAll api (map (routeOf u (optionsPrefix opts))
                                    (filter (\<lambda>m. isValidHTTPMethod u (HTTPMethod m)) ms))
                   (engine s) = Done e"
  shows "\<exists>s' paths paths'.
           RegisterService api u sc s svc opts = Done (s', None)
           \<and> engine s' = e
           \<and> docWellFormed (swagger s')
           \<and> map_of (swagger s) ''paths'' = Some (JObject paths)
           \<and> map_of (swagger s') ''paths'' = Some (JObject paths')
           \<and> (\<forall>k v. operationAt paths' k v =
                 (case find (\<lambda>m. isValidHTTPMethod u (HTTPMethod m)
                                  \<and> docPath (optionsPrefix opts) (Name m) = k
                                  \<and> ToLower u (HTTPMethod m) = v) (rev ms) of
                    Some m \<Rightarrow> documented sc m
                  | None \<Rightarrow> operationAt paths k v))
           \<and> (\<forall>k. k \<notin> set (map (\<lambda>m. docPath (optionsPrefix opts) (Name m))
                                 (filter (\<lambda>m. isValidHTTPMethod u (HTTPMethod m)) ms))
                  \<longrightarrow> map_of paths' k = map_of paths k)
           \<and> list_all (\<lambda>m. \<exists>operation. documented sc m = Some (JObject operation))
                (filter (\<lambda>m. isValidHTTPMethod u (HTTPMethod m)) ms)"
proof -
  let ?pre = "optionsPrefix opts"
  from wf obtain paths where paths: "map_of (swagger s) ''paths'' = Some (JObject paths)"
    and items: "pathItemsAreMaps paths"
    and keys: "\<not> isNil (map_of (swagger s) ''openapi'')" "\<not> isNil (map_of (swagger s) ''info'')"
    by (auto simp: docWellFormed_def split: option.splits json.splits)
  from swaggerLoop_entries [OF items types, of sc ?pre] obtain paths' where p:
    "swaggerLoop u sc ?pre ms paths = Done paths'"
    and items': "pathItemsAreMaps paths'"
    and p1: "\<forall>k v. operationAt paths' k v =
                 (case find (\<lambda>m. isValidHTTPMethod u (HTTPMethod m)
                                  \<and> docPath ?pre (Name m) = k
                                  \<and> ToLower u (HTTPMethod m) = v) (rev ms) of
                    Some m \<Rightarrow> documented sc m
                  | None \<Rightarrow> operationAt paths k v)"
    and p2: "\<forall>k. k \<notin> set (map (\<lambda>m. docPath ?pre (Name m))
                                 (filter (\<lambda>m. isValidHTTPMethod u (HTTPMethod m)) ms))
                  \<longrightarrow> map_of paths' k = map_of paths k"
    by blast
  have br: "bindRoutes api u ?pre ms (engine s) = Done e"
    using router by (simp add: bindRoutes_handleAll)
  let ?s1 = "s\<lparr>engine := e\<rparr>"
  let ?s' = "?s1\<lparr>swagger := put ''paths'' (JObject paths') (swagger s)\<rparr>"
  have upd: "updateSwaggerDoc u sc ?s1 svc ?pre = Done (?s', None)"
    using info paths keys p by (simp add: updateSwaggerDoc_def)
  have r: "RegisterService api u sc s svc opts = Done (?s', None)"
    using info getServiceInfo_nonempty [OF info] upd br
    by (simp add: RegisterService_def registerMethods_def optionsPrefix_def Let_def)
  have e: "engine ?s' = e" by simp
  have w: "docWellFormed (swagger ?s')"
    using keys items' by (simp add: docWellFormed_def map_of_put)
  have m: "map_of (swagger ?s') ''paths'' = Some (JObject paths')"
    by (simp add: map_of_put)
  have d: "list_all (\<lambda>m. \<exists>operation. documented sc m = Some (JObject operation))
                (filter (\<lambda>m. isValidHTTPMethod u (HTTPMethod m)) ms)"
    using types operationOf_typesSet [of _ sc]
    by (fastforce simp: list_all_iff documented_def)
  from r e w paths m p1 p2 d show ?thesis by blast
qed


text \<open>
  C6, amended, on the server \<open>NewServer\<close> builds, with the prefix \<open>/v1\<close>: the greeting
  and the POST method are bound after the three routes of the server and documented
  under \<open>get\<close> and \<open>post\<close>, and the document has no path and no entry for the method
  declared on \<open>INVALID\<close>.
\<close>

theorem C6_invalid_verbs_skipped_witness:
  "\<exists>s' paths'.
     RegisterService exRouter exUnicode exScan exServer exMixedService [WithPathPrefix ''/v1'']
       = Done (s', None)
     \<and> map (\<lambda>r. (fst r, fst (snd r))) (engine s')
         = [(''GET'', ''/health''), (''GET'', ''/api/docs/swagger.json''),
            (''GET'', ''/api/docs/index.html''), (''GET'', ''/v1/Hello''),
            (''POST'', ''/v1/Echo'')]
     \<and> map_of (swagger s') ''paths'' = Some (JObject paths')
     \<and> map_of paths' ''/v1/InvalidMethod'' = None
     \<and> operationAt paths' ''/v1/InvalidMethod'' ''invalid'' = None
     \<and> operationAt paths' ''/v1/Hello'' ''get'' = documented exScan exHelloGet
     \<and> operationAt paths' ''/v1/Echo'' ''post'' = documented exScan exEchoPost"
proof -
  let ?ms = "[exHelloGet, exInvalidDecl, exEchoPost]"
  let ?valid = "\<lambda>m. isValidHTTPMethod exUnicode (HTTPMethod m)"
  let ?e = "engine exServer @ [(''GET'', ''/v1/Hello'', MethodHandler exHelloGet),
                               (''POST'', ''/v1/Echo'', MethodHandler exEchoPost)]"
  have n: "Name exHelloGet = ''Hello''" "HTTPMethod exHelloGet = ''GET''"
    "Name exInvalidDecl = ''InvalidMethod''" "HTTPMethod exInvalidDecl = ''INVALID''"
    "Name exEchoPost = ''Echo''" "HTTPMethod exEchoPost = ''POST''"
    by (simp_all add: exHelloGet_def exInvalidDecl_def exEchoPost_def)
  have up: "ToUpper exUnicode ''GET'' = ''GET''" "ToUpper exUnicode ''POST'' = ''POST''"
    "ToUpper exUnicode ''INVALID'' = ''INVALID''"
    by (simp_all add: ToUpper_def isASCII_def upperChar_def)
  have low: "ToLower exUnicode ''GET'' = ''get''" "ToLower exUnicode ''POST'' = ''post''"
    "ToLower exUnicode ''INVALID'' = ''invalid''"
    by (simp_all add: ToLower_def isASCII_def lowerChar_def)
  have v: "?valid exHelloGet" "\<not> ?valid exInvalidDecl" "?valid exEchoPost"
    by (simp_all add: n up isValidHTTPMethod_iff validMethods_def)
  have f: "filter ?valid ?ms = [exHelloGet, exEchoPost]" using v by simp
  have pre: "optionsPrefix [WithPathPrefix ''/v1''] = ''/v1''"
    by (simp add: optionsPrefix_def WithPathPrefix_def)
  have h1: "getServiceInfo exMixedService = Inr ?ms"
    by (simp add: exMixedService_def exMixedMethods_def n exRegisterMethods_def
        exStringMethod_def NumIn_def NumOut_def)
  have h2: "docWellFormed (swagger exServer)"
    by (simp add: exServer_def newSwaggerDoc_def docWellFormed_def isNil_def pathItemsAreMaps_def)
  have h3: "list_all typesSet (filter ?valid ?ms)"
    unfolding f by (simp add: typesSet_def exHelloGet_def exEchoPost_def)
  have h4: "handleAll exRouter (map (routeOf exUnicode (optionsPrefix [WithPathPrefix ''/v1'']))
              (filter ?valid ?ms)) (engine exServer) = Done ?e"
    unfolding f pre by (simp add: routeOf_def n up exRouter_def exServer_def)
  have p0: "map_of (swagger exServer) ''paths'' = Some (JObject [])"
    by (simp add: exServer_def newSwaggerDoc_def)
  have dp: "docPath ''/v1'' ''Hello'' = ''/v1/Hello''" "docPath ''/v1'' ''Echo'' = ''/v1/Echo''"
    "docPath ''/v1'' ''InvalidMethod'' = ''/v1/InvalidMethod''"
    by (simp_all add: docPath_def HasPrefix_def)
  from C6_invalid_verbs_skipped [OF h1 h2 h3 h4, of exScan]
  obtain s' paths paths' where r:
    "RegisterService exRouter exUnicode exScan exServer exMixedService [WithPathPrefix ''/v1'']
       = Done (s', None)"
    "engine s' = ?e"
    "map_of (swagger exServer) ''paths'' = Some (JObject paths)"
    "map_of (swagger s') ''paths'' = Some (JObject paths')"
    "\<forall>k v. operationAt paths' k v =
         (case find (\<lambda>m. ?valid m \<and> docPath ''/v1'' (Name m) = k
                          \<and> ToLower exUnicode (HTTPMethod m) = v) (rev ?ms) of
            Some m \<Rightarrow> documented exScan m
          | None \<Rightarrow> operationAt paths k v)"
    "\<forall>k. k \<notin> set (map (\<lambda>m. docPath ''/v1'' (Name m)) [exHelloGet, exEchoPost])
          \<longrightarrow> map_of paths' k = map_of paths k"
    unfolding pre f by blast
  from r(3) p0 have e: "paths = []" by simp
  have a1: "map_of paths' ''/v1/InvalidMethod'' = None"
    using r(6) e by (simp add: n dp)
  have a2: "operationAt paths' ''/v1/InvalidMethod'' ''invalid'' = None"
    using r(5) e v by (simp add: n dp low operationAt_def)
  have a3: "operationAt paths' ''/v1/Hello'' ''get'' = documented exScan exHelloGet"
    using r(5) v by (simp add: n dp low)
  have a4: "operationAt paths' ''/v1/Echo'' ''post'' = documented exScan exEchoPost"
    using r(5) v by (simp add: n dp low)
  have rt: "map (\<lambda>r. (fst r, fst (snd r))) (engine s')
         = [(''GET'', ''/health''), (''GET'', ''/api/docs/swagger.json''),
            (''GET'', ''/api/docs/index.html''), (''GET'', ''/v1/Hello''),
            (''POST'', ''/v1/Echo'')]"
    unfolding r(2) by (simp add: exServer_def)
  show ?thesis
    by (rule exI [of _ s'], rule exI [of _ paths']) (intro conjI r(1) rt r(4) a1 a2 a3 a4)
qed

end
